theory Spec2Isabelle
  imports Complex_Main
begin

section \<open>Sensirion SDP8xx analog conversion routines\<close>

text \<open>
  A shallow embedding of \<^verbatim>\<open>src/main.c\<close> and \<^verbatim>\<open>src/utilities-config.h\<close>.

  A C \<^verbatim>\<open>double\<close> is read as a \<^typ>\<open>real\<close>: the arithmetic of the model is exact, so
  rounding, infinities and NaN are outside it. Where the C program divides by \<^verbatim>\<open>Vdd = 0\<close>
  it produces an IEEE-754 special value, which the model does not have: the values that
  the model computes are those of the program for \<open>Vdd \<noteq> 0\<close> only. Which entries a
  pass writes, and which of the computed values it returns, does not depend on \<open>Vdd\<close>.

  The one place where the program turns a double into an integer is the conversion of
  the measured time to microseconds, and the truncation there exposes the rounding: in
  that computation every conversion to double and every arithmetic operation on doubles
  is followed by the rounding to double, which the model takes as a parameter.

  A C object that is declared without an initialiser (\<^verbatim>\<open>double calibratedValue;\<close>, the
  local arrays and scalars of \<^verbatim>\<open>main\<close>, the block returned by the allocator) holds an
  \<open>option\<close>: \<open>None\<close> until the program assigns it.
\<close>

subsection \<open>Constants of \<^verbatim>\<open>utilities-config.h\<close>\<close>

definition kSensorCalibrationConstantSDP8x6Linear500Pa1 :: real where
  "kSensorCalibrationConstantSDP8x6Linear500Pa1 = 750"

definition kSensorCalibrationConstantSDP8x6Linear500Pa2 :: real where
  "kSensorCalibrationConstantSDP8x6Linear500Pa2 = 150"

definition kSensorCalibrationConstantSDP8x6Linear125Pa1 :: real where
  "kSensorCalibrationConstantSDP8x6Linear125Pa1 = 190"

definition kSensorCalibrationConstantSDP8x6Linear125Pa2 :: real where
  "kSensorCalibrationConstantSDP8x6Linear125Pa2 = 38"

definition kSensorCalibrationConstantSDP8x6Sqrt500Pa1 :: real where
  "kSensorCalibrationConstantSDP8x6Sqrt500Pa1 = 0.5"

definition kSensorCalibrationConstantSDP8x6Sqrt500Pa2 :: real where
  "kSensorCalibrationConstantSDP8x6Sqrt500Pa2 = 0.4"

definition kSensorCalibrationConstantSDP8x6Sqrt500Pa3 :: real where
  "kSensorCalibrationConstantSDP8x6Sqrt500Pa3 = 1.25"

definition kSensorCalibrationConstantSDP8x6Sqrt500Pa4 :: real where
  "kSensorCalibrationConstantSDP8x6Sqrt500Pa4 = 525"

definition kSensorCalibrationConstantSDP8x6Sqrt125Pa1 :: real where
  "kSensorCalibrationConstantSDP8x6Sqrt125Pa1 = 0.5"

definition kSensorCalibrationConstantSDP8x6Sqrt125Pa2 :: real where
  "kSensorCalibrationConstantSDP8x6Sqrt125Pa2 = 0.4"

definition kSensorCalibrationConstantSDP8x6Sqrt125Pa3 :: real where
  "kSensorCalibrationConstantSDP8x6Sqrt125Pa3 = 1.25"

definition kSensorCalibrationConstantSDP8x6Sqrt125Pa4 :: real where
  "kSensorCalibrationConstantSDP8x6Sqrt125Pa4 = 133"

text \<open>The enumerators of \<^verbatim>\<open>InputDistributionIndex\<close> and \<^verbatim>\<open>OutputDistributionIndex\<close> are
  used as array indices and compared with the integer field \<^verbatim>\<open>outputSelect\<close>, so they
  are numbers here, as in C.\<close>

definition kInputDistributionIndexAout :: nat where
  "kInputDistributionIndexAout = 0"

definition kInputDistributionIndexVdd :: nat where
  "kInputDistributionIndexVdd = 1"

definition kInputDistributionIndexMax :: nat where
  "kInputDistributionIndexMax = 2"

definition kOutputDistributionIndexCalibratedSensorOutputSDP8x6Linear500Pa :: nat where
  "kOutputDistributionIndexCalibratedSensorOutputSDP8x6Linear500Pa = 0"

definition kOutputDistributionIndexCalibratedSensorOutputSDP8x6Linear125Pa :: nat where
  "kOutputDistributionIndexCalibratedSensorOutputSDP8x6Linear125Pa = 1"

definition kOutputDistributionIndexCalibratedSensorOutputSDP8x6Sqrt500Pa :: nat where
  "kOutputDistributionIndexCalibratedSensorOutputSDP8x6Sqrt500Pa = 2"

definition kOutputDistributionIndexCalibratedSensorOutputSDP8x6Sqrt125Pa :: nat where
  "kOutputDistributionIndexCalibratedSensorOutputSDP8x6Sqrt125Pa = 3"

definition kOutputDistributionIndexCalibratedSensorOutputMax :: nat where
  "kOutputDistributionIndexCalibratedSensorOutputMax = 4"

definition kDefaultInputDistributionAoutUniformDistLow :: real where
  "kDefaultInputDistributionAoutUniformDistLow = 1.3"

definition kDefaultInputDistributionAoutUniformDistHigh :: real where
  "kDefaultInputDistributionAoutUniformDistHigh = 1.7"

definition kDefaultInputDistributionVddUniformDistLow :: real where
  "kDefaultInputDistributionVddUniformDistLow = 3.5"

definition kDefaultInputDistributionVddUniformDistHigh :: real where
  "kDefaultInputDistributionVddUniformDistHigh = 3.9"

subsection \<open>The command-line arguments read by \<^verbatim>\<open>main.c\<close>\<close>

text \<open>The struct \<^verbatim>\<open>CommandLineArguments\<close> is declared in a header outside the two source
  files; these are the fields of its member \<^verbatim>\<open>common\<close> that \<^verbatim>\<open>main.c\<close> reads.\<close>

record CommonCommandLineArguments =
  outputSelect :: nat
  isMonteCarloMode :: bool
  numberOfMonteCarloIterations :: nat
  isTimingEnabled :: bool
  isBenchmarkingMode :: bool
  isOutputJSONMode :: bool
  isWriteToFileEnabled :: bool
  outputFilePath :: string

record CommandLineArguments =
  common :: CommonCommandLineArguments

subsection \<open>\<^verbatim>\<open>sign\<close>\<close>

definition sign :: "real \<Rightarrow> real" where
  "sign arg = (if arg = 0 then 0 else arg / \<bar>arg\<bar>)"

text \<open>The call \<^verbatim>\<open>pow(x, 2)\<close> of the C library, whose exponent is the literal 2 at both call
  sites: the square of \<open>x\<close>, for negative \<open>x\<close> too.\<close>

definition pow2 :: "real \<Rightarrow> real" where
  "pow2 x = x ^ 2"

subsection \<open>\<^verbatim>\<open>calculateSensorOutput\<close>\<close>

text \<open>The function reads the two input entries, and runs four guarded blocks in
  sequence. Each block assigns the local \<^verbatim>\<open>calibratedValue\<close> and stores it in its entry of
  \<^verbatim>\<open>outputDistributions\<close>. One definition per block, on the pair of the local and the
  output array; \<^verbatim>\<open>calibratedValue\<close> starts unassigned.\<close>

definition blockLinear500Pa ::
  "CommandLineArguments \<Rightarrow> real \<Rightarrow> real \<Rightarrow> real option \<times> real option list
    \<Rightarrow> real option \<times> real option list" where
  "blockLinear500Pa arguments Aout Vdd st =
     (if outputSelect (common arguments) = kOutputDistributionIndexCalibratedSensorOutputMax \<or>
         outputSelect (common arguments) = kOutputDistributionIndexCalibratedSensorOutputSDP8x6Linear500Pa
      then
        (let calibratedValue =
               kSensorCalibrationConstantSDP8x6Linear500Pa1 * Aout / Vdd
                 - kSensorCalibrationConstantSDP8x6Linear500Pa2
         in (Some calibratedValue,
             (snd st)[kOutputDistributionIndexCalibratedSensorOutputSDP8x6Linear500Pa := Some calibratedValue]))
      else st)"

definition blockLinear125Pa ::
  "CommandLineArguments \<Rightarrow> real \<Rightarrow> real \<Rightarrow> real option \<times> real option list
    \<Rightarrow> real option \<times> real option list" where
  "blockLinear125Pa arguments Aout Vdd st =
     (if outputSelect (common arguments) = kOutputDistributionIndexCalibratedSensorOutputMax \<or>
         outputSelect (common arguments) = kOutputDistributionIndexCalibratedSensorOutputSDP8x6Linear125Pa
      then
        (let calibratedValue =
               kSensorCalibrationConstantSDP8x6Linear125Pa1 * Aout / Vdd
                 - kSensorCalibrationConstantSDP8x6Linear125Pa2
         in (Some calibratedValue,
             (snd st)[kOutputDistributionIndexCalibratedSensorOutputSDP8x6Linear125Pa := Some calibratedValue]))
      else st)"

definition blockSqrt500Pa ::
  "CommandLineArguments \<Rightarrow> real \<Rightarrow> real \<Rightarrow> real option \<times> real option list
    \<Rightarrow> real option \<times> real option list" where
  "blockSqrt500Pa arguments Aout Vdd st =
     (if outputSelect (common arguments) = kOutputDistributionIndexCalibratedSensorOutputMax \<or>
         outputSelect (common arguments) = kOutputDistributionIndexCalibratedSensorOutputSDP8x6Sqrt500Pa
      then
        (let calibratedValue =
               sign ((Aout / Vdd) - kSensorCalibrationConstantSDP8x6Sqrt500Pa1) *
               pow2 ((Aout / (Vdd * kSensorCalibrationConstantSDP8x6Sqrt500Pa2))
                       - kSensorCalibrationConstantSDP8x6Sqrt500Pa3) *
               kSensorCalibrationConstantSDP8x6Sqrt500Pa4
         in (Some calibratedValue,
             (snd st)[kOutputDistributionIndexCalibratedSensorOutputSDP8x6Sqrt500Pa := Some calibratedValue]))
      else st)"

definition blockSqrt125Pa ::
  "CommandLineArguments \<Rightarrow> real \<Rightarrow> real \<Rightarrow> real option \<times> real option list
    \<Rightarrow> real option \<times> real option list" where
  "blockSqrt125Pa arguments Aout Vdd st =
     (if outputSelect (common arguments) = kOutputDistributionIndexCalibratedSensorOutputMax \<or>
         outputSelect (common arguments) = kOutputDistributionIndexCalibratedSensorOutputSDP8x6Sqrt125Pa
      then
        (let calibratedValue =
               sign ((Aout / Vdd) - kSensorCalibrationConstantSDP8x6Sqrt125Pa1) *
               pow2 ((Aout / (Vdd * kSensorCalibrationConstantSDP8x6Sqrt125Pa2))
                       - kSensorCalibrationConstantSDP8x6Sqrt125Pa3) *
               kSensorCalibrationConstantSDP8x6Sqrt125Pa4
         in (Some calibratedValue,
             (snd st)[kOutputDistributionIndexCalibratedSensorOutputSDP8x6Sqrt125Pa := Some calibratedValue]))
      else st)"

definition calculateSensorOutput ::
  "CommandLineArguments \<Rightarrow> real list \<Rightarrow> real option list \<Rightarrow> real option \<times> real option list" where
  "calculateSensorOutput arguments inputDistributions outputDistributions =
     (let Vdd = inputDistributions ! kInputDistributionIndexVdd;
          Aout = inputDistributions ! kInputDistributionIndexAout
      in blockSqrt125Pa arguments Aout Vdd
           (blockSqrt500Pa arguments Aout Vdd
             (blockLinear125Pa arguments Aout Vdd
               (blockLinear500Pa arguments Aout Vdd (None, outputDistributions)))))"

subsection \<open>Collaborators of \<^verbatim>\<open>main\<close> outside the two source files\<close>

record MeanAndVariance =
  mean :: real
  variance :: real

text \<open>Modelled from the spec: \<^verbatim>\<open>calculateMeanAndVarianceOfDoubleSamples\<close> is defined outside
  the two source files. The spec says of its result that the mean is the arithmetic
  average of the samples and that the variance is not negative; the variance is taken
  here as the average squared deviation from that mean.\<close>

definition calculateMeanAndVarianceOfDoubleSamples :: "real list \<Rightarrow> nat \<Rightarrow> MeanAndVariance" where
  "calculateMeanAndVarianceOfDoubleSamples dataArray dataArraySize =
     (let xs = take dataArraySize dataArray;
          m = sum_list xs / real dataArraySize
      in \<lparr>mean = m, variance = sum_list (map (\<lambda>x. (x - m) ^ 2) xs) / real dataArraySize\<rparr>)"

text \<open>Modelled from the spec: the value of \<^verbatim>\<open>kCommonConstantReturnTypeError\<close> is declared
  outside the two source files; the spec says that the exit code of a fatal condition is
  not zero.\<close>

definition kCommonConstantReturnTypeError :: int where
  "kCommonConstantReturnTypeError = 1"

text \<open>The calls that \<^verbatim>\<open>main\<close> makes to print, to write files, to reduce the samples and to
  release the sample block, with their arguments, in program order. A pointer argument
  is the content of the block it points to; \<open>None\<close> is the null pointer.\<close>

datatype Event =
    PrintfBenchmarkLine "real option" "nat option"
  | PrintCalibratedValueAndProbabilities "real option" "string option"
  | PrintJSONFormattedOutput CommandLineArguments "real option list option" "real option list" "string list"
  | PrintfCpuTimeUsed "real option"
  | WriteOutputDoubleDistributionsToCSV string "real option list" "string list" nat
  | CalculateMeanAndVarianceOfDoubleSamples "real option list option" nat
  | SaveMonteCarloDoubleDataToDataDotOutFile "real option list option" "nat option" nat
  | Free "real option list option"

text \<open>What the run receives from outside \<^verbatim>\<open>main.c\<close>: the result of the argument parser
  (its status and the struct it fills), whether the allocator can serve a request of a
  given size, the value returned by the \<open>k\<close>-th call of \<^verbatim>\<open>UxHwDoubleUniformDist\<close> and of
  \<^verbatim>\<open>clock\<close>, the constant \<^verbatim>\<open>CLOCKS_PER_SEC\<close>, the status returned by the CSV writer,
  the indeterminate value that the entries of the local array \<^verbatim>\<open>inputDistributions\<close> hold
  at the entry of \<^verbatim>\<open>main\<close> (both entries are overwritten before they are read), and the
  rounding of a real number to the \<^verbatim>\<open>double\<close> that the platform's arithmetic yields for it.\<close>

record Environment =
  getCommandLineArguments :: "string list \<Rightarrow> int \<times> CommandLineArguments"
  mallocSucceeds :: "nat \<Rightarrow> bool"
  UxHwDoubleUniformDist :: "nat \<Rightarrow> real \<Rightarrow> real \<Rightarrow> real"
  clock :: "nat \<Rightarrow> int"
  CLOCKS_PER_SEC :: int
  writeOutputDoubleDistributionsToCSV :: "string \<Rightarrow> real option list \<Rightarrow> string list \<Rightarrow> nat \<Rightarrow> int"
  indeterminateDouble :: real
  roundToDouble :: "real \<Rightarrow> real"

text \<open>\<^verbatim>\<open>sizeof(double)\<close>, and the product of two \<^verbatim>\<open>size_t\<close> values, which wraps at 64 bits.\<close>

definition sizeofDouble :: nat where
  "sizeofDouble = 8"

definition sizeMult :: "nat \<Rightarrow> nat \<Rightarrow> nat" where
  "sizeMult a b = (a * b) mod 2 ^ 64"

text \<open>Modelled from the spec: \<^verbatim>\<open>checkedMalloc\<close> is defined outside the two source files.
  The spec says that an allocation failure is fatal: the process terminates at once with
  a non-zero exit code. \<open>None\<close> is that termination; otherwise the result is a block of
  unassigned doubles of the requested size.\<close>

definition checkedMalloc :: "Environment \<Rightarrow> nat \<Rightarrow> real option list option" where
  "checkedMalloc env nbytes =
     (if mallocSucceeds env nbytes then Some (replicate (nbytes div sizeofDouble) None) else None)"

text \<open>The conversion \<^verbatim>\<open>(uint64_t)\<close> of a double: truncation towards zero where the
  truncated value fits, undefined in C (\<open>None\<close>) elsewhere.\<close>

definition toUint64 :: "real \<Rightarrow> nat option" where
  "toUint64 x = (if - 1 < x \<and> x < 2 ^ 64 then Some (nat \<lfloor>x\<rfloor>) else None)"

text \<open>Reading entry \<open>i\<close> of an array of strings; \<open>None\<close> beyond its end.\<close>

definition nameAt :: "string list \<Rightarrow> nat \<Rightarrow> string option" where
  "nameAt names i = (if i < length names then Some (names ! i) else None)"

text \<open>Reading the first \<open>n\<close> doubles of a block: \<open>None\<close> when the pointer is null, the
  block is shorter, or one of the entries was never assigned.\<close>

definition readSamples :: "real option list option \<Rightarrow> nat \<Rightarrow> real list option" where
  "readSamples p n =
     (case p of
        None \<Rightarrow> None
      | Some buf \<Rightarrow> if n \<le> length buf then those (take n buf) else None)"

subsection \<open>\<^verbatim>\<open>setInputDistributionsViaUxHwCall\<close>\<close>

text \<open>Iteration \<open>i\<close> of the loop of \<^verbatim>\<open>main\<close> makes the calls number \<open>2 * i\<close> and
  \<open>2 * i + 1\<close> of \<^verbatim>\<open>UxHwDoubleUniformDist\<close>.\<close>

definition setInputDistributionsViaUxHwCall :: "Environment \<Rightarrow> nat \<Rightarrow> real list \<Rightarrow> real list" where
  "setInputDistributionsViaUxHwCall env i inputDistributions =
     (inputDistributions
        [kInputDistributionIndexAout :=
           UxHwDoubleUniformDist env (2 * i)
             kDefaultInputDistributionAoutUniformDistLow kDefaultInputDistributionAoutUniformDistHigh])
        [kInputDistributionIndexVdd :=
           UxHwDoubleUniformDist env (2 * i + 1)
             kDefaultInputDistributionVddUniformDistLow kDefaultInputDistributionVddUniformDistHigh]"

subsection \<open>\<^verbatim>\<open>main\<close>\<close>

record Locals =
  calibratedSensorOutput :: "real option"
  monteCarloOutputSamples :: "real option list option"
  start :: "int option"
  end' :: "int option"
  cpuTimeUsedSeconds :: "real option"
  inputDistributions :: "real list"
  outputDistributions :: "real option list"
  meanAndVariance :: "MeanAndVariance option"
  trace :: "Event list"

definition outputVariableNames :: "string list" where
  "outputVariableNames =
     [''Calibrated Sensor Output SDP8x6 Linear 500Pa'',
      ''Calibrated Sensor Output SDP8x6 Linear 125Pa'',
      ''Calibrated Sensor Output SDP8x6 Square 500Pa'',
      ''Calibrated Sensor Output SDP8x6 Square 125Pa'']"

definition initialLocals :: "Environment \<Rightarrow> Locals" where
  "initialLocals env =
     \<lparr>calibratedSensorOutput = None,
      monteCarloOutputSamples = None,
      start = None,
      end' = None,
      cpuTimeUsedSeconds = None,
      inputDistributions = replicate kInputDistributionIndexMax (indeterminateDouble env),
      outputDistributions = replicate kOutputDistributionIndexCalibratedSensorOutputMax None,
      meanAndVariance = None,
      trace = []\<rparr>"

text \<open>Lines 158 to 164: the sample block is allocated in Monte Carlo mode only.\<close>

definition allocateSamples :: "Environment \<Rightarrow> CommandLineArguments \<Rightarrow> Locals \<Rightarrow> Locals option" where
  "allocateSamples env arguments s =
     (if isMonteCarloMode (common arguments)
      then
        (case checkedMalloc env
                (sizeMult (numberOfMonteCarloIterations (common arguments)) sizeofDouble) of
           None \<Rightarrow> None
         | Some buf \<Rightarrow> Some (s\<lparr>monteCarloOutputSamples := Some buf\<rparr>))
      else Some s)"

text \<open>Lines 169 to 172.\<close>

definition startTiming :: "Environment \<Rightarrow> CommandLineArguments \<Rightarrow> Locals \<Rightarrow> Locals" where
  "startTiming env arguments s =
     (if isTimingEnabled (common arguments) \<or> isBenchmarkingMode (common arguments)
      then s\<lparr>start := Some (clock env 0)\<rparr>
      else s)"

text \<open>Lines 176 to 191: the body of the loop at index \<open>i\<close>. A store beyond the end of
  the sample block is undefined in C; the list update leaves the block as it is.\<close>

definition loopBody :: "Environment \<Rightarrow> CommandLineArguments \<Rightarrow> nat \<Rightarrow> Locals \<Rightarrow> Locals" where
  "loopBody env arguments i s =
     (let inp = setInputDistributionsViaUxHwCall env i (inputDistributions s);
          r = calculateSensorOutput arguments inp (outputDistributions s);
          s1 = s\<lparr>calibratedSensorOutput := fst r,
                 inputDistributions := inp,
                 outputDistributions := snd r\<rparr>
      in if isMonteCarloMode (common arguments)
         then s1\<lparr>monteCarloOutputSamples :=
                   map_option (\<lambda>buf. buf[i := fst r]) (monteCarloOutputSamples s1)\<rparr>
         else s1)"

text \<open>Line 174: \<open>sampleLoop env arguments n s\<close> is the state after the iterations
  \<open>i = 0, \<dots>, n - 1\<close>.\<close>

primrec sampleLoop :: "Environment \<Rightarrow> CommandLineArguments \<Rightarrow> nat \<Rightarrow> Locals \<Rightarrow> Locals" where
  "sampleLoop env arguments 0 s = s"
| "sampleLoop env arguments (Suc n) s = loopBody env arguments n (sampleLoop env arguments n s)"

text \<open>Lines 198 to 204.\<close>

definition reduceSamples :: "CommandLineArguments \<Rightarrow> Locals \<Rightarrow> Locals" where
  "reduceSamples arguments s =
     (if isMonteCarloMode (common arguments)
      then
        (let n = numberOfMonteCarloIterations (common arguments);
             mv = map_option (\<lambda>xs. calculateMeanAndVarianceOfDoubleSamples xs n)
                    (readSamples (monteCarloOutputSamples s) n)
         in s\<lparr>calibratedSensorOutput := map_option mean mv,
               meanAndVariance := mv,
               trace := trace s @
                 [CalculateMeanAndVarianceOfDoubleSamples (monteCarloOutputSamples s) n]\<rparr>)
      else s)"

text \<open>Lines 209 to 213. In \<^verbatim>\<open>((double)(end - start)) / CLOCKS_PER_SEC\<close> the difference of
  the ticks and the constant are converted to double, and the quotient is a double.\<close>

definition stopTiming :: "Environment \<Rightarrow> CommandLineArguments \<Rightarrow> Locals \<Rightarrow> Locals" where
  "stopTiming env arguments s =
     (if isTimingEnabled (common arguments) \<or> isBenchmarkingMode (common arguments)
      then s\<lparr>end' := Some (clock env 1),
             cpuTimeUsedSeconds :=
               map_option
                 (\<lambda>st. roundToDouble env
                         (roundToDouble env (real_of_int (clock env 1 - st)) /
                          roundToDouble env (real_of_int (CLOCKS_PER_SEC env))))
                 (start s)\<rparr>
      else s)"

text \<open>The expression \<^verbatim>\<open>(uint64_t)(cpuTimeUsedSeconds*1000000)\<close> of lines 222 and 284: the
  product is a double, which is then truncated; \<open>None\<close> when the variable was never
  assigned.\<close>

definition elapsedMicroseconds :: "Environment \<Rightarrow> Locals \<Rightarrow> nat option" where
  "elapsedMicroseconds env s =
     Option.bind (cpuTimeUsedSeconds s) (\<lambda>t. toUint64 (roundToDouble env (t * 1000000)))"

text \<open>The value that line 212 computes from the tick counts of the two calls of
  \<^verbatim>\<open>clock\<close>.\<close>

definition measuredSeconds :: "Environment \<Rightarrow> real" where
  "measuredSeconds env =
     roundToDouble env
       (roundToDouble env (real_of_int (clock env 1 - clock env 0)) /
        roundToDouble env (real_of_int (CLOCKS_PER_SEC env)))"

text \<open>Lines 229 to 252: the plain report or the JSON report.\<close>

definition printResults :: "CommandLineArguments \<Rightarrow> Locals \<Rightarrow> Locals" where
  "printResults arguments s =
     (if \<not> isOutputJSONMode (common arguments)
      then
        (if outputSelect (common arguments) = kOutputDistributionIndexCalibratedSensorOutputMax
         then s\<lparr>trace := trace s @
                  map (\<lambda>i. PrintCalibratedValueAndProbabilities
                              (outputDistributions s ! i) (nameAt outputVariableNames i))
                    [0 ..< kOutputDistributionIndexCalibratedSensorOutputMax]\<rparr>
         else s\<lparr>trace := trace s @
                  [PrintCalibratedValueAndProbabilities (calibratedSensorOutput s)
                     (nameAt outputVariableNames (outputSelect (common arguments)))]\<rparr>)
      else s\<lparr>trace := trace s @
               [PrintJSONFormattedOutput arguments (monteCarloOutputSamples s)
                  (outputDistributions s) outputVariableNames]\<rparr>)"

text \<open>Lines 215 to 276. The first component is the value of an early \<^verbatim>\<open>return\<close>.\<close>

definition report :: "Environment \<Rightarrow> CommandLineArguments \<Rightarrow> Locals \<Rightarrow> int option \<times> Locals" where
  "report env arguments s =
     (if isBenchmarkingMode (common arguments)
      then (None, s\<lparr>trace := trace s @
                      [PrintfBenchmarkLine (calibratedSensorOutput s) (elapsedMicroseconds env s)]\<rparr>)
      else
        (let s1 = printResults arguments s;
             s2 = (if isTimingEnabled (common arguments)
                   then s1\<lparr>trace := trace s1 @ [PrintfCpuTimeUsed (cpuTimeUsedSeconds s1)]\<rparr>
                   else s1)
         in if isWriteToFileEnabled (common arguments)
            then
              (let s3 = s2\<lparr>trace := trace s2 @
                              [WriteOutputDoubleDistributionsToCSV (outputFilePath (common arguments))
                                 (outputDistributions s2) outputVariableNames
                                 kOutputDistributionIndexCalibratedSensorOutputMax]\<rparr>
               in if writeOutputDoubleDistributionsToCSV env (outputFilePath (common arguments))
                       (outputDistributions s2) outputVariableNames
                       kOutputDistributionIndexCalibratedSensorOutputMax \<noteq> 0
                  then (Some kCommonConstantReturnTypeError, s3)
                  else (None, s3))
            else (None, s2)))"

text \<open>Lines 282 to 287.\<close>

definition saveAndFree :: "Environment \<Rightarrow> CommandLineArguments \<Rightarrow> Locals \<Rightarrow> Locals" where
  "saveAndFree env arguments s =
     (if isMonteCarloMode (common arguments)
      then s\<lparr>trace := trace s @
               [SaveMonteCarloDoubleDataToDataDotOutFile (monteCarloOutputSamples s)
                  (elapsedMicroseconds env s) (numberOfMonteCarloIterations (common arguments)),
                Free (monteCarloOutputSamples s)]\<rparr>
      else s)"

text \<open>Lines 169 to 213: the locals when the timing has stopped, for parsed arguments and
  the locals after the allocation.\<close>

definition stateBeforeReport :: "Environment \<Rightarrow> CommandLineArguments \<Rightarrow> Locals \<Rightarrow> Locals" where
  "stateBeforeReport env arguments s =
     stopTiming env arguments
       (reduceSamples arguments
         (sampleLoop env arguments (numberOfMonteCarloIterations (common arguments))
           (startTiming env arguments s)))"

text \<open>The part of \<^verbatim>\<open>main\<close> from the start of the timing to the end: an early \<^verbatim>\<open>return\<close>
  of the report leaves at once, otherwise lines 282 to 289 follow.\<close>

definition runAfterStartup :: "Environment \<Rightarrow> CommandLineArguments \<Rightarrow> Locals \<Rightarrow> int \<times> Locals" where
  "runAfterStartup env arguments s =
     (let r = report env arguments (stateBeforeReport env arguments s)
      in case fst r of
           Some code \<Rightarrow> (code, snd r)
         | None \<Rightarrow> (0, saveAndFree env arguments (snd r)))"

text \<open>\<^verbatim>\<open>main\<close>: the exit code of the process and the locals, with the trace of calls, at
  the exit. A failed allocation ends the process inside \<^verbatim>\<open>checkedMalloc\<close>, with a non-zero
  exit code, taken here to be that of the other fatal conditions.\<close>

definition main :: "Environment \<Rightarrow> string list \<Rightarrow> int \<times> Locals" where
  "main env argv =
     (let r = getCommandLineArguments env argv;
          arguments = snd r
      in if fst r \<noteq> 0 then (kCommonConstantReturnTypeError, initialLocals env)
         else
           (case allocateSamples env arguments (initialLocals env) of
              None \<Rightarrow> (kCommonConstantReturnTypeError, initialLocals env)
            | Some s1 \<Rightarrow> runAfterStartup env arguments s1))"

subsection \<open>The formulas of the specification\<close>

text \<open>The four calibration formulas as the specification writes them, with its numbers;
  \<^const>\<open>sgn\<close> is the sign function of the reals (\<open>0\<close> at \<open>0\<close>, else \<open>1\<close> or \<open>- 1\<close>).\<close>

definition specLinear500Pa :: "real \<Rightarrow> real \<Rightarrow> real" where
  "specLinear500Pa Aout Vdd = 750 * Aout / Vdd - 150"

definition specLinear125Pa :: "real \<Rightarrow> real \<Rightarrow> real" where
  "specLinear125Pa Aout Vdd = 190 * Aout / Vdd - 38"

definition specSqrt500Pa :: "real \<Rightarrow> real \<Rightarrow> real" where
  "specSqrt500Pa Aout Vdd = sgn (Aout / Vdd - 0.5) * (Aout / (Vdd * 0.4) - 1.25)\<^sup>2 * 525"

definition specSqrt125Pa :: "real \<Rightarrow> real \<Rightarrow> real" where
  "specSqrt125Pa Aout Vdd = sgn (Aout / Vdd - 0.5) * (Aout / (Vdd * 0.4) - 1.25)\<^sup>2 * 133"

subsection \<open>Kinds of calls in a trace\<close>

fun isCSVWrite :: "Event \<Rightarrow> bool" where
  "isCSVWrite (WriteOutputDoubleDistributionsToCSV p d names n) = True"
| "isCSVWrite _ = False"

fun isReduction :: "Event \<Rightarrow> bool" where
  "isReduction (CalculateMeanAndVarianceOfDoubleSamples p n) = True"
| "isReduction _ = False"

fun isSave :: "Event \<Rightarrow> bool" where
  "isSave (SaveMonteCarloDoubleDataToDataDotOutFile p us n) = True"
| "isSave _ = False"

fun isFree :: "Event \<Rightarrow> bool" where
  "isFree (Free p) = True"
| "isFree _ = False"

text \<open>The calls that report results: the two \<^verbatim>\<open>printf\<close> calls, the plain and the JSON
  printers and the CSV writer.\<close>

fun isReport :: "Event \<Rightarrow> bool" where
  "isReport (PrintfBenchmarkLine v us) = True"
| "isReport (PrintCalibratedValueAndProbabilities v name) = True"
| "isReport (PrintJSONFormattedOutput a p d names) = True"
| "isReport (PrintfCpuTimeUsed t) = True"
| "isReport (WriteOutputDoubleDistributionsToCSV p d names n) = True"
| "isReport _ = False"

subsection \<open>Inputs of example runs\<close>

text \<open>The input pair drawn in iteration \<open>i\<close>.\<close>

definition drawnInputs :: "Environment \<Rightarrow> nat \<Rightarrow> real list" where
  "drawnInputs env i =
     [UxHwDoubleUniformDist env (2 * i)
        kDefaultInputDistributionAoutUniformDistLow kDefaultInputDistributionAoutUniformDistHigh,
      UxHwDoubleUniformDist env (2 * i + 1)
        kDefaultInputDistributionVddUniformDistLow kDefaultInputDistributionVddUniformDistHigh]"

text \<open>Arguments for two iterations, with the selection and the five mode flags as
  parameters; and an environment in which the parser returns given arguments
  with status 0, the allocator succeeds, every draw is the midpoint of its interval, the
  clock advances by 15625 ticks of a microsecond, the CSV writer returns a given
  status, and the rounding to double is the identity: the measured time of these runs is
  1 / 64 second, and it, the operands of its quotient and its product with one million
  are doubles, which rounding leaves as they are.\<close>

definition exampleArguments ::
  "nat \<Rightarrow> bool \<Rightarrow> bool \<Rightarrow> bool \<Rightarrow> bool \<Rightarrow> bool \<Rightarrow> CommandLineArguments" where
  "exampleArguments sel mc timing bench json write =
     \<lparr>common =
        \<lparr>outputSelect = sel, isMonteCarloMode = mc, numberOfMonteCarloIterations = 2,
         isTimingEnabled = timing, isBenchmarkingMode = bench, isOutputJSONMode = json,
         isWriteToFileEnabled = write, outputFilePath = ''out.csv''\<rparr>\<rparr>"

definition exampleEnvironment :: "CommandLineArguments \<Rightarrow> int \<Rightarrow> Environment" where
  "exampleEnvironment arguments csvStatus =
     \<lparr>getCommandLineArguments = (\<lambda>argv. (0, arguments)),
      mallocSucceeds = (\<lambda>n. True),
      UxHwDoubleUniformDist = (\<lambda>k low high. (low + high) / 2),
      clock = (\<lambda>k. 15625 * int k),
      CLOCKS_PER_SEC = 1000000,
      writeOutputDoubleDistributionsToCSV = (\<lambda>p d names n. csvStatus),
      indeterminateDouble = 0,
      roundToDouble = (\<lambda>x. x)\<rparr>"


text \<open>A value is present and lies within a tolerance of a target.\<close>

definition matchesToTolerance :: "real option \<Rightarrow> real \<Rightarrow> real \<Rightarrow> bool" where
  "matchesToTolerance r target tol = (case r of None \<Rightarrow> False | Some v \<Rightarrow> \<bar>v - target\<bar> \<le> tol)"

section \<open>Facts about the definitions\<close>

lemmas calibration_constants =
  kSensorCalibrationConstantSDP8x6Linear500Pa1_def kSensorCalibrationConstantSDP8x6Linear500Pa2_def
  kSensorCalibrationConstantSDP8x6Linear125Pa1_def kSensorCalibrationConstantSDP8x6Linear125Pa2_def
  kSensorCalibrationConstantSDP8x6Sqrt500Pa1_def kSensorCalibrationConstantSDP8x6Sqrt500Pa2_def
  kSensorCalibrationConstantSDP8x6Sqrt500Pa3_def kSensorCalibrationConstantSDP8x6Sqrt500Pa4_def
  kSensorCalibrationConstantSDP8x6Sqrt125Pa1_def kSensorCalibrationConstantSDP8x6Sqrt125Pa2_def
  kSensorCalibrationConstantSDP8x6Sqrt125Pa3_def kSensorCalibrationConstantSDP8x6Sqrt125Pa4_def

lemmas index_constants =
  kInputDistributionIndexAout_def kInputDistributionIndexVdd_def kInputDistributionIndexMax_def
  kOutputDistributionIndexCalibratedSensorOutputSDP8x6Linear500Pa_def
  kOutputDistributionIndexCalibratedSensorOutputSDP8x6Linear125Pa_def
  kOutputDistributionIndexCalibratedSensorOutputSDP8x6Sqrt500Pa_def
  kOutputDistributionIndexCalibratedSensorOutputSDP8x6Sqrt125Pa_def
  kOutputDistributionIndexCalibratedSensorOutputMax_def

subsection \<open>\<^verbatim>\<open>calculateSensorOutput\<close>, selection by selection\<close>

lemmas block_defs = blockLinear500Pa_def blockLinear125Pa_def blockSqrt500Pa_def blockSqrt125Pa_def

lemma sign_eq_sgn: "sign x = sgn x"
  by (simp add: sign_def sgn_real_def)

lemma calculateSensorOutput_all:
  assumes "outputSelect (common arguments) = kOutputDistributionIndexCalibratedSensorOutputMax"
  shows "calculateSensorOutput arguments inp outs =
           (Some (specSqrt125Pa (inp ! 0) (inp ! 1)),
            outs[0 := Some (specLinear500Pa (inp ! 0) (inp ! 1)),
                 1 := Some (specLinear125Pa (inp ! 0) (inp ! 1)),
                 2 := Some (specSqrt500Pa (inp ! 0) (inp ! 1)),
                 3 := Some (specSqrt125Pa (inp ! 0) (inp ! 1))])"
  using assms
  by (simp add: Let_def calculateSensorOutput_def block_defs index_constants calibration_constants
      specLinear500Pa_def specLinear125Pa_def specSqrt500Pa_def specSqrt125Pa_def
      sign_eq_sgn pow2_def)

lemma calculateSensorOutput_Linear500Pa:
  assumes "outputSelect (common arguments) = kOutputDistributionIndexCalibratedSensorOutputSDP8x6Linear500Pa"
  shows "calculateSensorOutput arguments inp outs =
           (Some (specLinear500Pa (inp ! 0) (inp ! 1)),
            outs[0 := Some (specLinear500Pa (inp ! 0) (inp ! 1))])"
  using assms
  by (simp add: Let_def calculateSensorOutput_def block_defs index_constants calibration_constants
      specLinear500Pa_def)

lemma calculateSensorOutput_Linear125Pa:
  assumes "outputSelect (common arguments) = kOutputDistributionIndexCalibratedSensorOutputSDP8x6Linear125Pa"
  shows "calculateSensorOutput arguments inp outs =
           (Some (specLinear125Pa (inp ! 0) (inp ! 1)),
            outs[1 := Some (specLinear125Pa (inp ! 0) (inp ! 1))])"
  using assms
  by (simp add: Let_def calculateSensorOutput_def block_defs index_constants calibration_constants
      specLinear125Pa_def)

lemma calculateSensorOutput_Sqrt500Pa:
  assumes "outputSelect (common arguments) = kOutputDistributionIndexCalibratedSensorOutputSDP8x6Sqrt500Pa"
  shows "calculateSensorOutput arguments inp outs =
           (Some (specSqrt500Pa (inp ! 0) (inp ! 1)),
            outs[2 := Some (specSqrt500Pa (inp ! 0) (inp ! 1))])"
  using assms
  by (simp add: Let_def calculateSensorOutput_def block_defs index_constants calibration_constants
      specSqrt500Pa_def sign_eq_sgn pow2_def)

lemma calculateSensorOutput_Sqrt125Pa:
  assumes "outputSelect (common arguments) = kOutputDistributionIndexCalibratedSensorOutputSDP8x6Sqrt125Pa"
  shows "calculateSensorOutput arguments inp outs =
           (Some (specSqrt125Pa (inp ! 0) (inp ! 1)),
            outs[3 := Some (specSqrt125Pa (inp ! 0) (inp ! 1))])"
  using assms
  by (simp add: Let_def calculateSensorOutput_def block_defs index_constants calibration_constants
      specSqrt125Pa_def sign_eq_sgn pow2_def)

lemma calculateSensorOutput_none:
  assumes "kOutputDistributionIndexCalibratedSensorOutputMax < outputSelect (common arguments)"
  shows "calculateSensorOutput arguments inp outs = (None, outs)"
  using assms
  by (simp add: Let_def calculateSensorOutput_def block_defs index_constants)

lemma selection_cases:
  assumes "outputSelect (common arguments) \<le> kOutputDistributionIndexCalibratedSensorOutputMax"
  obtains
    "outputSelect (common arguments) = kOutputDistributionIndexCalibratedSensorOutputSDP8x6Linear500Pa"
  | "outputSelect (common arguments) = kOutputDistributionIndexCalibratedSensorOutputSDP8x6Linear125Pa"
  | "outputSelect (common arguments) = kOutputDistributionIndexCalibratedSensorOutputSDP8x6Sqrt500Pa"
  | "outputSelect (common arguments) = kOutputDistributionIndexCalibratedSensorOutputSDP8x6Sqrt125Pa"
  | "outputSelect (common arguments) = kOutputDistributionIndexCalibratedSensorOutputMax"
  using assms unfolding index_constants by force

lemma length_calculateSensorOutput:
  "length (snd (calculateSensorOutput arguments inp outs)) = length outs"
  by (simp add: Let_def calculateSensorOutput_def block_defs)

lemma fst_calculateSensorOutput_indep:
  "fst (calculateSensorOutput arguments inp outs) = fst (calculateSensorOutput arguments inp outs')"
  by (simp add: Let_def calculateSensorOutput_def block_defs)


subsection \<open>Claims about \<^verbatim>\<open>sign\<close> and \<^verbatim>\<open>calculateSensorOutput\<close>\<close>

text \<open>C5: \<^verbatim>\<open>sign\<close> returns exactly \<open>0\<close> at the argument \<open>0\<close>, and \<open>x / \<bar>x\<bar>\<close>, which is
  \<open>1\<close> or \<open>- 1\<close>, at every real argument \<open>x \<noteq> 0\<close>.\<close>

theorem sign_zero_and_unit:
  "sign 0 = 0 \<and> (\<forall>x. x \<noteq> 0 \<longrightarrow> sign x = x / \<bar>x\<bar> \<and> (sign x = 1 \<or> sign x = - 1))"
proof (intro conjI allI impI)
  show "sign 0 = 0" by (simp add: sign_def)
next
  fix x :: real assume "x \<noteq> 0"
  then show "sign x = x / \<bar>x\<bar>" by (simp add: sign_def)
next
  fix x :: real assume nz: "x \<noteq> 0"
  show "sign x = 1 \<or> sign x = - 1"
  proof (cases "0 < x")
    case True
    then show ?thesis by (simp add: sign_def)
  next
    case False
    with nz have "x < 0" by simp
    then show ?thesis by (simp add: sign_def)
  qed
qed

theorem sign_zero_and_unit_witness:
  "(- 3 :: real) \<noteq> 0 \<and> sign (- 3) = - 3 / \<bar>- 3\<bar> \<and> sign (- 3) = - 1 \<and> sign 0 = 0"
  using sign_zero_and_unit by (simp add: sign_def)

text \<open>C4: for every input pair with \<open>Vdd \<noteq> 0\<close> and an output table of four entries,
  each variant that the selection makes \<^verbatim>\<open>calculateSensorOutput\<close> compute is stored in its
  entry of the table with the value of the specification's formula:
  \<open>750 \<cdot> Aout / Vdd - 150\<close>, \<open>190 \<cdot> Aout / Vdd - 38\<close>, and
  \<open>sgn (Aout / Vdd - 0.5) \<cdot> (Aout / (Vdd \<cdot> 0.4) - 1.25)\<^sup>2 \<cdot> k4\<close> with \<open>k4 = 525\<close> and
  \<open>k4 = 133\<close>.\<close>

theorem calibration_formulas:
  assumes "Vdd \<noteq> 0"
    and "length outs = kOutputDistributionIndexCalibratedSensorOutputMax"
  shows
    "(outputSelect (common arguments) = kOutputDistributionIndexCalibratedSensorOutputMax \<or>
      outputSelect (common arguments) = kOutputDistributionIndexCalibratedSensorOutputSDP8x6Linear500Pa
        \<longrightarrow> snd (calculateSensorOutput arguments [Aout, Vdd] outs)
              ! kOutputDistributionIndexCalibratedSensorOutputSDP8x6Linear500Pa
            = Some (750 * Aout / Vdd - 150)) \<and>
     (outputSelect (common arguments) = kOutputDistributionIndexCalibratedSensorOutputMax \<or>
      outputSelect (common arguments) = kOutputDistributionIndexCalibratedSensorOutputSDP8x6Linear125Pa
        \<longrightarrow> snd (calculateSensorOutput arguments [Aout, Vdd] outs)
              ! kOutputDistributionIndexCalibratedSensorOutputSDP8x6Linear125Pa
            = Some (190 * Aout / Vdd - 38)) \<and>
     (outputSelect (common arguments) = kOutputDistributionIndexCalibratedSensorOutputMax \<or>
      outputSelect (common arguments) = kOutputDistributionIndexCalibratedSensorOutputSDP8x6Sqrt500Pa
        \<longrightarrow> snd (calculateSensorOutput arguments [Aout, Vdd] outs)
              ! kOutputDistributionIndexCalibratedSensorOutputSDP8x6Sqrt500Pa
            = Some (sgn (Aout / Vdd - 0.5) * (Aout / (Vdd * 0.4) - 1.25)\<^sup>2 * 525)) \<and>
     (outputSelect (common arguments) = kOutputDistributionIndexCalibratedSensorOutputMax \<or>
      outputSelect (common arguments) = kOutputDistributionIndexCalibratedSensorOutputSDP8x6Sqrt125Pa
        \<longrightarrow> snd (calculateSensorOutput arguments [Aout, Vdd] outs)
              ! kOutputDistributionIndexCalibratedSensorOutputSDP8x6Sqrt125Pa
            = Some (sgn (Aout / Vdd - 0.5) * (Aout / (Vdd * 0.4) - 1.25)\<^sup>2 * 133))"
proof -
  have len: "length outs = 4"
    using assms(2) by (simp add: index_constants)
  have l500: "specLinear500Pa Aout Vdd = 750 * Aout / Vdd - 150"
    by (simp add: specLinear500Pa_def)
  have l125: "specLinear125Pa Aout Vdd = 190 * Aout / Vdd - 38"
    by (simp add: specLinear125Pa_def)
  have s500: "specSqrt500Pa Aout Vdd = sgn (Aout / Vdd - 0.5) * (Aout / (Vdd * 0.4) - 1.25)\<^sup>2 * 525"
    by (simp add: specSqrt500Pa_def)
  have s125: "specSqrt125Pa Aout Vdd = sgn (Aout / Vdd - 0.5) * (Aout / (Vdd * 0.4) - 1.25)\<^sup>2 * 133"
    by (simp add: specSqrt125Pa_def)
  have c1: "snd (calculateSensorOutput arguments [Aout, Vdd] outs) ! 0 = Some (specLinear500Pa Aout Vdd)"
    if "outputSelect (common arguments) = kOutputDistributionIndexCalibratedSensorOutputMax \<or>
        outputSelect (common arguments) = kOutputDistributionIndexCalibratedSensorOutputSDP8x6Linear500Pa"
    using that len
    by (auto simp: calculateSensorOutput_all calculateSensorOutput_Linear500Pa)
  have c2: "snd (calculateSensorOutput arguments [Aout, Vdd] outs) ! 1 = Some (specLinear125Pa Aout Vdd)"
    if "outputSelect (common arguments) = kOutputDistributionIndexCalibratedSensorOutputMax \<or>
        outputSelect (common arguments) = kOutputDistributionIndexCalibratedSensorOutputSDP8x6Linear125Pa"
    using that len
    by (auto simp: calculateSensorOutput_all calculateSensorOutput_Linear125Pa)
  have c3: "snd (calculateSensorOutput arguments [Aout, Vdd] outs) ! 2 = Some (specSqrt500Pa Aout Vdd)"
    if "outputSelect (common arguments) = kOutputDistributionIndexCalibratedSensorOutputMax \<or>
        outputSelect (common arguments) = kOutputDistributionIndexCalibratedSensorOutputSDP8x6Sqrt500Pa"
    using that len
    by (auto simp: calculateSensorOutput_all calculateSensorOutput_Sqrt500Pa)
  have c4: "snd (calculateSensorOutput arguments [Aout, Vdd] outs) ! 3 = Some (specSqrt125Pa Aout Vdd)"
    if "outputSelect (common arguments) = kOutputDistributionIndexCalibratedSensorOutputMax \<or>
        outputSelect (common arguments) = kOutputDistributionIndexCalibratedSensorOutputSDP8x6Sqrt125Pa"
    using that len
    by (auto simp: calculateSensorOutput_all calculateSensorOutput_Sqrt125Pa)
  show ?thesis
    using c1 c2 c3 c4 unfolding l500 l125 s500 s125
    unfolding kOutputDistributionIndexCalibratedSensorOutputSDP8x6Linear500Pa_def
      kOutputDistributionIndexCalibratedSensorOutputSDP8x6Linear125Pa_def
      kOutputDistributionIndexCalibratedSensorOutputSDP8x6Sqrt500Pa_def
      kOutputDistributionIndexCalibratedSensorOutputSDP8x6Sqrt125Pa_def
    by blast
qed

theorem calibration_formulas_witness:
  "(3.7 :: real) \<noteq> 0 \<and>
   length (replicate 4 (None :: real option)) = kOutputDistributionIndexCalibratedSensorOutputMax \<and>
   outputSelect (common (exampleArguments 4 False False False False False))
     = kOutputDistributionIndexCalibratedSensorOutputMax \<and>
   snd (calculateSensorOutput (exampleArguments 4 False False False False False) [1.5, 3.7] (replicate 4 None)) ! 0
     = Some (750 * 1.5 / 3.7 - 150) \<and>
   snd (calculateSensorOutput (exampleArguments 4 False False False False False) [1.5, 3.7] (replicate 4 None)) ! 1
     = Some (190 * 1.5 / 3.7 - 38) \<and>
   snd (calculateSensorOutput (exampleArguments 4 False False False False False) [1.5, 3.7] (replicate 4 None)) ! 2
     = Some (sgn (1.5 / 3.7 - 0.5) * (1.5 / (3.7 * 0.4) - 1.25)\<^sup>2 * 525) \<and>
   snd (calculateSensorOutput (exampleArguments 4 False False False False False) [1.5, 3.7] (replicate 4 None)) ! 3
     = Some (sgn (1.5 / 3.7 - 0.5) * (1.5 / (3.7 * 0.4) - 1.25)\<^sup>2 * 133)"
proof -
  have nz: "(3.7 :: real) \<noteq> 0" by simp
  have len: "length (replicate 4 (None :: real option)) = kOutputDistributionIndexCalibratedSensorOutputMax"
    by (simp add: index_constants)
  have sel: "outputSelect (common (exampleArguments 4 False False False False False))
               = kOutputDistributionIndexCalibratedSensorOutputMax"
    by (simp add: exampleArguments_def index_constants)
  note f = calibration_formulas [OF nz len, of "exampleArguments 4 False False False False False" "1.5"]
  show ?thesis
    using f sel nz len
    unfolding kOutputDistributionIndexCalibratedSensorOutputSDP8x6Linear500Pa_def
      kOutputDistributionIndexCalibratedSensorOutputSDP8x6Linear125Pa_def
      kOutputDistributionIndexCalibratedSensorOutputSDP8x6Sqrt500Pa_def
      kOutputDistributionIndexCalibratedSensorOutputSDP8x6Sqrt125Pa_def
    by blast
qed

text \<open>C7: with a table of four entries, the selection "all" makes one pass write all four
  entries, each with its variant's value; the selection of a single variant makes the
  pass assign the returned value to that variant's entry, and the table is otherwise as
  it was.\<close>

theorem calibration_pass_frame:
  assumes "length outs = kOutputDistributionIndexCalibratedSensorOutputMax"
  shows
    "(outputSelect (common arguments) = kOutputDistributionIndexCalibratedSensorOutputMax
        \<longrightarrow> snd (calculateSensorOutput arguments [Aout, Vdd] outs) =
              [Some (specLinear500Pa Aout Vdd), Some (specLinear125Pa Aout Vdd),
               Some (specSqrt500Pa Aout Vdd), Some (specSqrt125Pa Aout Vdd)]) \<and>
     (outputSelect (common arguments) < kOutputDistributionIndexCalibratedSensorOutputMax
        \<longrightarrow> fst (calculateSensorOutput arguments [Aout, Vdd] outs) \<noteq> None \<and>
            snd (calculateSensorOutput arguments [Aout, Vdd] outs) =
              outs[outputSelect (common arguments) := fst (calculateSensorOutput arguments [Aout, Vdd] outs)] \<and>
            (\<forall>i. i \<noteq> outputSelect (common arguments) \<longrightarrow>
                   snd (calculateSensorOutput arguments [Aout, Vdd] outs) ! i = outs ! i))"
proof (intro conjI impI)
  assume all: "outputSelect (common arguments) = kOutputDistributionIndexCalibratedSensorOutputMax"
  obtain a b c d where outs: "outs = [a, b, c, d]"
    using assms unfolding index_constants
    by (auto simp: eval_nat_numeral length_Suc_conv)
  show "snd (calculateSensorOutput arguments [Aout, Vdd] outs) =
          [Some (specLinear500Pa Aout Vdd), Some (specLinear125Pa Aout Vdd),
           Some (specSqrt500Pa Aout Vdd), Some (specSqrt125Pa Aout Vdd)]"
    by (simp add: calculateSensorOutput_all [OF all] outs numeral_2_eq_2 numeral_3_eq_3)
next
  assume one: "outputSelect (common arguments) < kOutputDistributionIndexCalibratedSensorOutputMax"
  then have "outputSelect (common arguments) \<le> kOutputDistributionIndexCalibratedSensorOutputMax"
    by simp
  then have r: "fst (calculateSensorOutput arguments [Aout, Vdd] outs) \<noteq> None \<and>
            snd (calculateSensorOutput arguments [Aout, Vdd] outs) =
              outs[outputSelect (common arguments) := fst (calculateSensorOutput arguments [Aout, Vdd] outs)]"
  proof (cases rule: selection_cases)
    case 1
    then show ?thesis
      by (simp add: calculateSensorOutput_Linear500Pa index_constants)
  next
    case 2
    then show ?thesis
      by (simp add: calculateSensorOutput_Linear125Pa index_constants)
  next
    case 3
    then show ?thesis
      by (simp add: calculateSensorOutput_Sqrt500Pa index_constants)
  next
    case 4
    then show ?thesis
      by (simp add: calculateSensorOutput_Sqrt125Pa index_constants)
  next
    case 5
    with one show ?thesis by simp
  qed
  from r show "fst (calculateSensorOutput arguments [Aout, Vdd] outs) \<noteq> None" by simp
  from r show "snd (calculateSensorOutput arguments [Aout, Vdd] outs) =
      outs[outputSelect (common arguments) := fst (calculateSensorOutput arguments [Aout, Vdd] outs)]"
    by simp
  from r have "\<And>i. i \<noteq> outputSelect (common arguments) \<Longrightarrow>
      snd (calculateSensorOutput arguments [Aout, Vdd] outs) ! i = outs ! i"
    by (metis nth_list_update_neq)
  then show "\<forall>i. i \<noteq> outputSelect (common arguments) \<longrightarrow>
                   snd (calculateSensorOutput arguments [Aout, Vdd] outs) ! i = outs ! i"
    by blast
qed


theorem calibration_pass_frame_witness:
  "length (replicate 4 (None :: real option)) = kOutputDistributionIndexCalibratedSensorOutputMax \<and>
   outputSelect (common (exampleArguments 4 False False False False False))
     = kOutputDistributionIndexCalibratedSensorOutputMax \<and>
   snd (calculateSensorOutput (exampleArguments 4 False False False False False) [1.5, 3.7] (replicate 4 None))
     = [Some (specLinear500Pa 1.5 3.7), Some (specLinear125Pa 1.5 3.7),
        Some (specSqrt500Pa 1.5 3.7), Some (specSqrt125Pa 1.5 3.7)] \<and>
   outputSelect (common (exampleArguments 2 False False False False False))
     < kOutputDistributionIndexCalibratedSensorOutputMax \<and>
   fst (calculateSensorOutput (exampleArguments 2 False False False False False) [1.5, 3.7] (replicate 4 None))
     \<noteq> None \<and>
   (0::nat) \<noteq> outputSelect (common (exampleArguments 2 False False False False False)) \<and>
   snd (calculateSensorOutput (exampleArguments 2 False False False False False) [1.5, 3.7] (replicate 4 None)) ! 0
     = replicate 4 None ! 0"
proof -
  have len: "length (replicate 4 (None :: real option)) = kOutputDistributionIndexCalibratedSensorOutputMax"
    by (simp add: index_constants)
  have sel4: "outputSelect (common (exampleArguments 4 False False False False False))
               = kOutputDistributionIndexCalibratedSensorOutputMax"
    by (simp add: exampleArguments_def index_constants)
  have sel2: "outputSelect (common (exampleArguments 2 False False False False False))
               < kOutputDistributionIndexCalibratedSensorOutputMax"
    by (simp add: exampleArguments_def index_constants)
  have ne: "(0::nat) \<noteq> outputSelect (common (exampleArguments 2 False False False False False))"
    by (simp add: exampleArguments_def)
  note f4 = calibration_pass_frame [OF len, of "exampleArguments 4 False False False False False" "1.5" "3.7"]
  note f2 = calibration_pass_frame [OF len, of "exampleArguments 2 False False False False False" "1.5" "3.7"]
  show ?thesis
    using f4 f2 len sel4 sel2 ne by blast
qed

subsection \<open>The midpoint inputs\<close>

text \<open>C3, as the code has it: at \<open>Aout = 1.5\<close> and \<open>Vdd = 3.7\<close>, in a table of four entries
  and with the selection "all", the Linear500Pa entry is \<open>5700 / 37 = 154.054054\<dots>\<close> and the
  Linear125Pa entry is \<open>1444 / 37 = 39.027027\<dots>\<close>, each within \<open>10\<^sup>-\<^sup>9\<close> of the nine-digit
  decimal.\<close>

theorem midpoint_outputs:
  assumes "outputSelect (common arguments) = kOutputDistributionIndexCalibratedSensorOutputMax"
    and "length outs = kOutputDistributionIndexCalibratedSensorOutputMax"
  shows
    "snd (calculateSensorOutput arguments [1.5, 3.7] outs)
       ! kOutputDistributionIndexCalibratedSensorOutputSDP8x6Linear500Pa = Some (5700 / 37) \<and>
     snd (calculateSensorOutput arguments [1.5, 3.7] outs)
       ! kOutputDistributionIndexCalibratedSensorOutputSDP8x6Linear125Pa = Some (1444 / 37) \<and>
     matchesToTolerance
       (snd (calculateSensorOutput arguments [1.5, 3.7] outs)
          ! kOutputDistributionIndexCalibratedSensorOutputSDP8x6Linear500Pa)
       154.054054054 (1 / 10 ^ 9) \<and>
     matchesToTolerance
       (snd (calculateSensorOutput arguments [1.5, 3.7] outs)
          ! kOutputDistributionIndexCalibratedSensorOutputSDP8x6Linear125Pa)
       39.027027027 (1 / 10 ^ 9)"
proof -
  have len: "length outs = 4"
    using assms(2) by (simp add: index_constants)
  have e0: "snd (calculateSensorOutput arguments [1.5, 3.7] outs) ! 0 = Some (5700 / 37)"
    using len by (simp add: calculateSensorOutput_all [OF assms(1)] specLinear500Pa_def)
  have e1: "snd (calculateSensorOutput arguments [1.5, 3.7] outs) ! 1 = Some (1444 / 37)"
    using len by (simp add: calculateSensorOutput_all [OF assms(1)] specLinear125Pa_def)
  have t0: "matchesToTolerance (Some (5700 / 37)) 154.054054054 (1 / 10 ^ 9)"
    by (simp add: matchesToTolerance_def abs_le_iff)
  have t1: "matchesToTolerance (Some (1444 / 37)) 39.027027027 (1 / 10 ^ 9)"
    by (simp add: matchesToTolerance_def abs_le_iff)
  show ?thesis
    unfolding kOutputDistributionIndexCalibratedSensorOutputSDP8x6Linear500Pa_def
      kOutputDistributionIndexCalibratedSensorOutputSDP8x6Linear125Pa_def e0 e1
    using t0 t1 by simp
qed

theorem midpoint_outputs_witness:
  "outputSelect (common (exampleArguments 4 False False False False False))
     = kOutputDistributionIndexCalibratedSensorOutputMax \<and>
   length (replicate 4 (None :: real option)) = kOutputDistributionIndexCalibratedSensorOutputMax \<and>
   snd (calculateSensorOutput (exampleArguments 4 False False False False False) [1.5, 3.7] (replicate 4 None))
     ! kOutputDistributionIndexCalibratedSensorOutputSDP8x6Linear500Pa = Some (5700 / 37) \<and>
   snd (calculateSensorOutput (exampleArguments 4 False False False False False) [1.5, 3.7] (replicate 4 None))
     ! kOutputDistributionIndexCalibratedSensorOutputSDP8x6Linear125Pa = Some (1444 / 37)"
proof -
  have sel: "outputSelect (common (exampleArguments 4 False False False False False))
               = kOutputDistributionIndexCalibratedSensorOutputMax"
    by (simp add: exampleArguments_def index_constants)
  have len: "length (replicate 4 (None :: real option)) = kOutputDistributionIndexCalibratedSensorOutputMax"
    by (simp add: index_constants)
  show ?thesis
    using midpoint_outputs [OF sel len] sel len by blast
qed

text \<open>The values that the specification gives for the midpoint are not those of the
  code: at the midpoint inputs the Linear500Pa
  entry is not within \<open>1\<close> of \<open>- 46.62162\<close>, and the Linear125Pa entry is not within
  \<open>1 / 10\<close> of \<open>39.97297\<close>.\<close>

theorem midpoint_outputs_counterexample:
  "\<not> matchesToTolerance
        (snd (calculateSensorOutput (exampleArguments 4 False False False False False)
                [1.5, 3.7] (replicate 4 None))
           ! kOutputDistributionIndexCalibratedSensorOutputSDP8x6Linear500Pa)
        (- 46.62162) 1 \<and>
   \<not> matchesToTolerance
        (snd (calculateSensorOutput (exampleArguments 4 False False False False False)
                [1.5, 3.7] (replicate 4 None))
           ! kOutputDistributionIndexCalibratedSensorOutputSDP8x6Linear125Pa)
        39.97297 (1 / 10)"
proof -
  have sel: "outputSelect (common (exampleArguments 4 False False False False False))
               = kOutputDistributionIndexCalibratedSensorOutputMax"
    by (simp add: exampleArguments_def index_constants)
  have e0: "snd (calculateSensorOutput (exampleArguments 4 False False False False False)
                [1.5, 3.7] (replicate 4 None)) ! 0 = Some (5700 / 37)"
    by (simp add: calculateSensorOutput_all [OF sel] specLinear500Pa_def)
  have e1: "snd (calculateSensorOutput (exampleArguments 4 False False False False False)
                [1.5, 3.7] (replicate 4 None)) ! 1 = Some (1444 / 37)"
    by (simp add: calculateSensorOutput_all [OF sel] specLinear125Pa_def)
  have t0: "\<not> matchesToTolerance (Some (5700 / 37)) (- 46.62162) 1"
    by (simp add: matchesToTolerance_def abs_le_iff)
  have t1: "\<not> matchesToTolerance (Some (1444 / 37)) 39.97297 (1 / 10)"
    by (simp add: matchesToTolerance_def abs_le_iff)
  show ?thesis
    unfolding kOutputDistributionIndexCalibratedSensorOutputSDP8x6Linear500Pa_def
      kOutputDistributionIndexCalibratedSensorOutputSDP8x6Linear125Pa_def e0 e1
    using t0 t1 by simp
qed

section \<open>The steps of \<^verbatim>\<open>main\<close>\<close>

subsection \<open>The sampling loop\<close>

lemma setInputDistributionsViaUxHwCall_drawn:
  assumes "length xs = kInputDistributionIndexMax"
  shows "setInputDistributionsViaUxHwCall env i xs = drawnInputs env i"
proof -
  obtain x y where "xs = [x, y]"
    using assms unfolding index_constants
    by (auto simp: eval_nat_numeral length_Suc_conv)
  then show ?thesis
    by (simp add: setInputDistributionsViaUxHwCall_def drawnInputs_def index_constants)
qed

lemma loopBody_frame:
  "trace (loopBody env a i s) = trace s"
  "start (loopBody env a i s) = start s"
  "end' (loopBody env a i s) = end' s"
  "cpuTimeUsedSeconds (loopBody env a i s) = cpuTimeUsedSeconds s"
  "meanAndVariance (loopBody env a i s) = meanAndVariance s"
  by (simp_all add: loopBody_def Let_def)

lemma loopBody_lengths:
  "length (inputDistributions (loopBody env a i s)) = length (inputDistributions s)"
  "length (outputDistributions (loopBody env a i s)) = length (outputDistributions s)"
  by (simp_all add: loopBody_def Let_def setInputDistributionsViaUxHwCall_def
      length_calculateSensorOutput)

lemma sampleLoop_frame:
  "trace (sampleLoop env a n s) = trace s"
  "start (sampleLoop env a n s) = start s"
  "end' (sampleLoop env a n s) = end' s"
  "cpuTimeUsedSeconds (sampleLoop env a n s) = cpuTimeUsedSeconds s"
  "meanAndVariance (sampleLoop env a n s) = meanAndVariance s"
  by (induction n) (simp_all add: loopBody_frame)

lemma sampleLoop_lengths:
  "length (inputDistributions (sampleLoop env a n s)) = length (inputDistributions s)"
  "length (outputDistributions (sampleLoop env a n s)) = length (outputDistributions s)"
  by (induction n) (simp_all add: loopBody_lengths)

lemma loopBody_samples:
  assumes "length (inputDistributions s) = kInputDistributionIndexMax"
  shows "monteCarloOutputSamples (loopBody env a i s) =
           (if isMonteCarloMode (common a)
            then map_option (\<lambda>buf. buf[i := fst (calculateSensorOutput a (drawnInputs env i) [])])
                   (monteCarloOutputSamples s)
            else monteCarloOutputSamples s)"
  using fst_calculateSensorOutput_indep [of a "drawnInputs env i" "outputDistributions s" "[]"]
  by (simp add: loopBody_def Let_def setInputDistributionsViaUxHwCall_drawn [OF assms])

lemma sampleLoop_samples_no_Monte_Carlo:
  assumes "\<not> isMonteCarloMode (common a)"
    and "length (inputDistributions s) = kInputDistributionIndexMax"
  shows "monteCarloOutputSamples (sampleLoop env a n s) = monteCarloOutputSamples s"
  using assms by (induction n) (simp_all add: loopBody_samples sampleLoop_lengths)

lemma update_filled_prefix:
  assumes "n < length buf" and "length xs = n"
  shows "(xs @ drop n buf)[n := v] = (xs @ [v]) @ drop (Suc n) buf"
proof -
  have "drop n buf = buf ! n # drop (Suc n) buf"
    using assms(1) by (simp add: Cons_nth_drop_Suc)
  then show ?thesis
    using assms(2) by (simp add: list_update_append)
qed

lemma sampleLoop_samples:
  assumes "isMonteCarloMode (common a)"
    and "monteCarloOutputSamples s = Some buf"
    and "length (inputDistributions s) = kInputDistributionIndexMax"
    and "n \<le> length buf"
  shows "monteCarloOutputSamples (sampleLoop env a n s) =
           Some (map (\<lambda>i. fst (calculateSensorOutput a (drawnInputs env i) [])) [0 ..< n] @ drop n buf)"
  using assms(4)
proof (induction n)
  case 0
  show ?case by (simp add: assms(2))
next
  case (Suc n)
  then have lt: "n < length buf" and le: "n \<le> length buf" by simp_all
  have len: "length (inputDistributions (sampleLoop env a n s)) = kInputDistributionIndexMax"
    by (simp add: sampleLoop_lengths assms(3))
  show ?case
    by (simp add: loopBody_samples [OF len] assms(1) Suc.IH [OF le]
        update_filled_prefix [OF lt])
qed

subsection \<open>From the start of the timing to its end\<close>

lemma initialLocals_fields:
  "trace (initialLocals env) = []"
  "cpuTimeUsedSeconds (initialLocals env) = None"
  "start (initialLocals env) = None"
  "monteCarloOutputSamples (initialLocals env) = None"
  "length (inputDistributions (initialLocals env)) = kInputDistributionIndexMax"
  "length (outputDistributions (initialLocals env)) = kOutputDistributionIndexCalibratedSensorOutputMax"
  by (simp_all add: initialLocals_def)

lemma allocateSamples_fields:
  assumes "allocateSamples env a s = Some s1"
  shows "trace s1 = trace s"
    and "cpuTimeUsedSeconds s1 = cpuTimeUsedSeconds s"
    and "start s1 = start s"
    and "inputDistributions s1 = inputDistributions s"
    and "outputDistributions s1 = outputDistributions s"
    and "\<not> isMonteCarloMode (common a) \<Longrightarrow> monteCarloOutputSamples s1 = monteCarloOutputSamples s"
    and "isMonteCarloMode (common a) \<Longrightarrow>
           monteCarloOutputSamples s1 =
             Some (replicate (sizeMult (numberOfMonteCarloIterations (common a)) sizeofDouble div sizeofDouble) None)"
  using assms
  by (auto simp: allocateSamples_def checkedMalloc_def split: if_splits option.splits)

lemma allocateSamples_succeeds_iff:
  "allocateSamples env a s \<noteq> None \<longleftrightarrow>
     (isMonteCarloMode (common a) \<longrightarrow>
        mallocSucceeds env (sizeMult (numberOfMonteCarloIterations (common a)) sizeofDouble))"
  by (simp add: allocateSamples_def checkedMalloc_def split: option.splits)

lemma block_size:
  assumes "n * sizeofDouble < 2 ^ 64"
  shows "sizeMult n sizeofDouble div sizeofDouble = n"
  using assms by (simp add: sizeMult_def sizeofDouble_def)

lemma startTiming_fields:
  "trace (startTiming env a s) = trace s"
  "monteCarloOutputSamples (startTiming env a s) = monteCarloOutputSamples s"
  "inputDistributions (startTiming env a s) = inputDistributions s"
  "outputDistributions (startTiming env a s) = outputDistributions s"
  "cpuTimeUsedSeconds (startTiming env a s) = cpuTimeUsedSeconds s"
  "start (startTiming env a s) =
     (if isTimingEnabled (common a) \<or> isBenchmarkingMode (common a)
      then Some (clock env 0) else start s)"
  by (simp_all add: startTiming_def)

lemma reduceSamples_fields:
  "trace (reduceSamples a s) =
     trace s @ (if isMonteCarloMode (common a)
                then [CalculateMeanAndVarianceOfDoubleSamples (monteCarloOutputSamples s)
                        (numberOfMonteCarloIterations (common a))]
                else [])"
  "monteCarloOutputSamples (reduceSamples a s) = monteCarloOutputSamples s"
  "outputDistributions (reduceSamples a s) = outputDistributions s"
  "cpuTimeUsedSeconds (reduceSamples a s) = cpuTimeUsedSeconds s"
  "start (reduceSamples a s) = start s"
  by (simp_all add: reduceSamples_def Let_def)

lemma reduceSamples_result:
  assumes "isMonteCarloMode (common a)"
  shows "meanAndVariance (reduceSamples a s) =
           map_option (\<lambda>xs. calculateMeanAndVarianceOfDoubleSamples xs (numberOfMonteCarloIterations (common a)))
             (readSamples (monteCarloOutputSamples s) (numberOfMonteCarloIterations (common a)))"
    and "calibratedSensorOutput (reduceSamples a s) = map_option mean (meanAndVariance (reduceSamples a s))"
  using assms by (simp_all add: reduceSamples_def Let_def)

lemma stopTiming_fields:
  "trace (stopTiming env a s) = trace s"
  "monteCarloOutputSamples (stopTiming env a s) = monteCarloOutputSamples s"
  "outputDistributions (stopTiming env a s) = outputDistributions s"
  "calibratedSensorOutput (stopTiming env a s) = calibratedSensorOutput s"
  "meanAndVariance (stopTiming env a s) = meanAndVariance s"
  "cpuTimeUsedSeconds (stopTiming env a s) =
     (if isTimingEnabled (common a) \<or> isBenchmarkingMode (common a)
      then map_option
             (\<lambda>st. roundToDouble env
                     (roundToDouble env (real_of_int (clock env 1 - st)) /
                      roundToDouble env (real_of_int (CLOCKS_PER_SEC env))))
             (start s)
      else cpuTimeUsedSeconds s)"
  by (simp_all add: stopTiming_def)

lemma stateBeforeReport_trace:
  "trace (stateBeforeReport env a s) =
     trace s @ (if isMonteCarloMode (common a)
                then [CalculateMeanAndVarianceOfDoubleSamples
                        (monteCarloOutputSamples (stateBeforeReport env a s))
                        (numberOfMonteCarloIterations (common a))]
                else [])"
  by (simp add: stateBeforeReport_def stopTiming_fields reduceSamples_fields sampleLoop_frame
      startTiming_fields)

lemma stateBeforeReport_cpuTime:
  "cpuTimeUsedSeconds (stateBeforeReport env a s) =
     (if isTimingEnabled (common a) \<or> isBenchmarkingMode (common a)
      then Some (roundToDouble env
                         (roundToDouble env (real_of_int (clock env 1 - clock env 0)) /
                          roundToDouble env (real_of_int (CLOCKS_PER_SEC env))))
      else cpuTimeUsedSeconds s)"
  by (simp add: stateBeforeReport_def stopTiming_fields reduceSamples_fields sampleLoop_frame
      startTiming_fields)

lemma stateBeforeReport_samples:
  "monteCarloOutputSamples (stateBeforeReport env a s) =
     monteCarloOutputSamples
       (sampleLoop env a (numberOfMonteCarloIterations (common a)) (startTiming env a s))"
  by (simp add: stateBeforeReport_def stopTiming_fields reduceSamples_fields)

lemma stateBeforeReport_result:
  assumes "isMonteCarloMode (common a)"
  shows "meanAndVariance (stateBeforeReport env a s) =
           map_option (\<lambda>xs. calculateMeanAndVarianceOfDoubleSamples xs (numberOfMonteCarloIterations (common a)))
             (readSamples (monteCarloOutputSamples (stateBeforeReport env a s))
                (numberOfMonteCarloIterations (common a)))"
    and "calibratedSensorOutput (stateBeforeReport env a s) =
           map_option mean (meanAndVariance (stateBeforeReport env a s))"
  using assms
  by (simp_all add: stateBeforeReport_def stopTiming_fields reduceSamples_fields reduceSamples_result)

subsection \<open>The report and the end of \<^verbatim>\<open>main\<close>\<close>

lemma printResults_fields:
  "monteCarloOutputSamples (printResults a s) = monteCarloOutputSamples s"
  "outputDistributions (printResults a s) = outputDistributions s"
  "calibratedSensorOutput (printResults a s) = calibratedSensorOutput s"
  "meanAndVariance (printResults a s) = meanAndVariance s"
  "cpuTimeUsedSeconds (printResults a s) = cpuTimeUsedSeconds s"
  by (simp_all add: printResults_def)

lemma printResults_trace:
  "list_ex isCSVWrite (trace (printResults a s)) = list_ex isCSVWrite (trace s)"
  "list_ex isReduction (trace (printResults a s)) = list_ex isReduction (trace s)"
  "list_ex isSave (trace (printResults a s)) = list_ex isSave (trace s)"
  "list_ex isFree (trace (printResults a s)) = list_ex isFree (trace s)"
  by (auto simp: printResults_def list_ex_iff)

lemma report_fields:
  "monteCarloOutputSamples (snd (report env a s)) = monteCarloOutputSamples s"
  "outputDistributions (snd (report env a s)) = outputDistributions s"
  "calibratedSensorOutput (snd (report env a s)) = calibratedSensorOutput s"
  "meanAndVariance (snd (report env a s)) = meanAndVariance s"
  "cpuTimeUsedSeconds (snd (report env a s)) = cpuTimeUsedSeconds s"
  by (simp_all add: report_def Let_def printResults_fields)

lemma report_elapsedMicroseconds:
  "elapsedMicroseconds env (snd (report env a s)) = elapsedMicroseconds env s"
  by (simp add: elapsedMicroseconds_def report_fields)

lemma report_return:
  "fst (report env a s) =
     (if \<not> isBenchmarkingMode (common a) \<and> isWriteToFileEnabled (common a) \<and>
         writeOutputDoubleDistributionsToCSV env (outputFilePath (common a))
           (outputDistributions s) outputVariableNames
           kOutputDistributionIndexCalibratedSensorOutputMax \<noteq> 0
      then Some kCommonConstantReturnTypeError
      else None)"
  by (simp add: report_def Let_def printResults_fields)

lemma report_trace:
  "list_ex isCSVWrite (trace (snd (report env a s))) =
     (list_ex isCSVWrite (trace s) \<or>
      (isWriteToFileEnabled (common a) \<and> \<not> isBenchmarkingMode (common a)))"
  "list_ex isReduction (trace (snd (report env a s))) = list_ex isReduction (trace s)"
  "list_ex isSave (trace (snd (report env a s))) = list_ex isSave (trace s)"
  "list_ex isFree (trace (snd (report env a s))) = list_ex isFree (trace s)"
  by (auto simp: report_def Let_def printResults_trace)

lemma report_benchmark:
  assumes "isBenchmarkingMode (common a)"
  shows "trace (snd (report env a s)) =
           trace s @ [PrintfBenchmarkLine (calibratedSensorOutput s) (elapsedMicroseconds env s)]"
  using assms by (simp add: report_def)

lemma saveAndFree_fields:
  "monteCarloOutputSamples (saveAndFree env a s) = monteCarloOutputSamples s"
  "outputDistributions (saveAndFree env a s) = outputDistributions s"
  "calibratedSensorOutput (saveAndFree env a s) = calibratedSensorOutput s"
  "meanAndVariance (saveAndFree env a s) = meanAndVariance s"
  "cpuTimeUsedSeconds (saveAndFree env a s) = cpuTimeUsedSeconds s"
  "trace (saveAndFree env a s) =
     trace s @ (if isMonteCarloMode (common a)
                then [SaveMonteCarloDoubleDataToDataDotOutFile (monteCarloOutputSamples s)
                        (elapsedMicroseconds env s) (numberOfMonteCarloIterations (common a)),
                      Free (monteCarloOutputSamples s)]
                else [])"
  by (simp_all add: saveAndFree_def)

lemma saveAndFree_elapsedMicroseconds:
  "elapsedMicroseconds env (saveAndFree env a s) = elapsedMicroseconds env s"
  by (simp add: elapsedMicroseconds_def saveAndFree_fields)

lemma runAfterStartup_exit:
  "fst (runAfterStartup env a s) =
     (if \<not> isBenchmarkingMode (common a) \<and> isWriteToFileEnabled (common a) \<and>
         writeOutputDoubleDistributionsToCSV env (outputFilePath (common a))
           (outputDistributions (stateBeforeReport env a s)) outputVariableNames
           kOutputDistributionIndexCalibratedSensorOutputMax \<noteq> 0
      then kCommonConstantReturnTypeError
      else 0)"
  by (simp add: runAfterStartup_def Let_def report_return)

lemma runAfterStartup_fields:
  "monteCarloOutputSamples (snd (runAfterStartup env a s)) =
     monteCarloOutputSamples (stateBeforeReport env a s)"
  "outputDistributions (snd (runAfterStartup env a s)) =
     outputDistributions (stateBeforeReport env a s)"
  "calibratedSensorOutput (snd (runAfterStartup env a s)) =
     calibratedSensorOutput (stateBeforeReport env a s)"
  "meanAndVariance (snd (runAfterStartup env a s)) = meanAndVariance (stateBeforeReport env a s)"
  "cpuTimeUsedSeconds (snd (runAfterStartup env a s)) =
     cpuTimeUsedSeconds (stateBeforeReport env a s)"
  by (simp_all add: runAfterStartup_def Let_def report_fields saveAndFree_fields
      split: option.splits)

lemma runAfterStartup_elapsedMicroseconds:
  "elapsedMicroseconds env (snd (runAfterStartup env a s)) =
     elapsedMicroseconds env (stateBeforeReport env a s)"
  by (simp add: elapsedMicroseconds_def runAfterStartup_fields)

lemma runAfterStartup_trace:
  "trace (snd (runAfterStartup env a s)) =
     trace (snd (report env a (stateBeforeReport env a s))) @
     (if fst (runAfterStartup env a s) = 0 \<and> isMonteCarloMode (common a)
      then [SaveMonteCarloDoubleDataToDataDotOutFile
              (monteCarloOutputSamples (snd (runAfterStartup env a s)))
              (elapsedMicroseconds env (snd (runAfterStartup env a s)))
              (numberOfMonteCarloIterations (common a)),
            Free (monteCarloOutputSamples (snd (runAfterStartup env a s)))]
      else [])"
  by (simp add: runAfterStartup_def Let_def report_fields saveAndFree_fields
      report_elapsedMicroseconds saveAndFree_elapsedMicroseconds report_return
      kCommonConstantReturnTypeError_def split: option.splits)

lemma main_runs:
  assumes "getCommandLineArguments env argv = (0, a)"
    and "allocateSamples env a (initialLocals env) = Some s1"
  shows "main env argv = runAfterStartup env a s1"
  using assms by (simp add: main_def)

subsection \<open>Runs of \<^verbatim>\<open>main\<close> that reach the loop\<close>

lemma main_exit:
  assumes "getCommandLineArguments env argv = (0, a)"
    and "allocateSamples env a (initialLocals env) = Some s1"
  shows "fst (main env argv) =
           (if \<not> isBenchmarkingMode (common a) \<and> isWriteToFileEnabled (common a) \<and>
               writeOutputDoubleDistributionsToCSV env (outputFilePath (common a))
                 (outputDistributions (snd (main env argv))) outputVariableNames
                 kOutputDistributionIndexCalibratedSensorOutputMax \<noteq> 0
            then kCommonConstantReturnTypeError
            else 0)"
  by (simp add: main_runs [OF assms] runAfterStartup_exit runAfterStartup_fields)

lemma main_csv_write:
  assumes "getCommandLineArguments env argv = (0, a)"
    and "allocateSamples env a (initialLocals env) = Some s1"
  shows "list_ex isCSVWrite (trace (snd (main env argv))) =
           (isWriteToFileEnabled (common a) \<and> \<not> isBenchmarkingMode (common a))"
  by (simp add: main_runs [OF assms] runAfterStartup_trace report_trace
      stateBeforeReport_trace allocateSamples_fields [OF assms(2)] initialLocals_fields)

lemma main_reduction:
  assumes "getCommandLineArguments env argv = (0, a)"
    and "allocateSamples env a (initialLocals env) = Some s1"
  shows "list_ex isReduction (trace (snd (main env argv))) = isMonteCarloMode (common a)"
  by (simp add: main_runs [OF assms] runAfterStartup_trace report_trace
      stateBeforeReport_trace allocateSamples_fields [OF assms(2)] initialLocals_fields)

lemma main_save_and_free:
  assumes "getCommandLineArguments env argv = (0, a)"
    and "allocateSamples env a (initialLocals env) = Some s1"
  shows "list_ex isSave (trace (snd (main env argv))) =
           (isMonteCarloMode (common a) \<and> fst (main env argv) = 0)"
    and "list_ex isFree (trace (snd (main env argv))) =
           (isMonteCarloMode (common a) \<and> fst (main env argv) = 0)"
  by (auto simp: main_runs [OF assms] runAfterStartup_trace report_trace
      stateBeforeReport_trace allocateSamples_fields [OF assms(2)] initialLocals_fields)

lemma main_saved_call:
  assumes "getCommandLineArguments env argv = (0, a)"
    and "allocateSamples env a (initialLocals env) = Some s1"
    and "isMonteCarloMode (common a)"
    and "fst (main env argv) = 0"
  shows "SaveMonteCarloDoubleDataToDataDotOutFile
           (monteCarloOutputSamples (snd (main env argv)))
           (elapsedMicroseconds env (snd (main env argv)))
           (numberOfMonteCarloIterations (common a))
         \<in> set (trace (snd (main env argv)))"
proof -
  have "fst (runAfterStartup env a s1) = 0"
    using assms(4) by (simp add: main_runs [OF assms(1,2)])
  then have "trace (snd (runAfterStartup env a s1)) =
      trace (snd (report env a (stateBeforeReport env a s1))) @
      [SaveMonteCarloDoubleDataToDataDotOutFile
         (monteCarloOutputSamples (snd (runAfterStartup env a s1)))
         (elapsedMicroseconds env (snd (runAfterStartup env a s1)))
         (numberOfMonteCarloIterations (common a)),
       Free (monteCarloOutputSamples (snd (runAfterStartup env a s1)))]"
    using assms(3) runAfterStartup_trace [of env a s1] by simp
  then show ?thesis
    by (simp add: main_runs [OF assms(1,2)])
qed

lemma main_cpuTime:
  assumes "getCommandLineArguments env argv = (0, a)"
    and "allocateSamples env a (initialLocals env) = Some s1"
  shows "cpuTimeUsedSeconds (snd (main env argv)) =
           (if isTimingEnabled (common a) \<or> isBenchmarkingMode (common a)
            then Some (roundToDouble env
                         (roundToDouble env (real_of_int (clock env 1 - clock env 0)) /
                          roundToDouble env (real_of_int (CLOCKS_PER_SEC env))))
            else None)"
  by (simp add: main_runs [OF assms] runAfterStartup_fields stateBeforeReport_cpuTime
      allocateSamples_fields [OF assms(2)] initialLocals_fields)

lemma main_benchmark:
  assumes "getCommandLineArguments env argv = (0, a)"
    and "allocateSamples env a (initialLocals env) = Some s1"
    and "isBenchmarkingMode (common a)"
  shows "filter isReport (trace (snd (main env argv))) =
           [PrintfBenchmarkLine (calibratedSensorOutput (snd (main env argv)))
              (elapsedMicroseconds env (snd (main env argv)))]"
  using assms(3)
  by (simp add: main_runs [OF assms(1,2)] runAfterStartup_trace report_benchmark
      stateBeforeReport_trace allocateSamples_fields [OF assms(2)] initialLocals_fields
      runAfterStartup_fields runAfterStartup_elapsedMicroseconds)

lemma main_result:
  assumes "getCommandLineArguments env argv = (0, a)"
    and "allocateSamples env a (initialLocals env) = Some s1"
    and "isMonteCarloMode (common a)"
  shows "meanAndVariance (snd (main env argv)) =
           map_option (\<lambda>xs. calculateMeanAndVarianceOfDoubleSamples xs (numberOfMonteCarloIterations (common a)))
             (readSamples (monteCarloOutputSamples (snd (main env argv)))
                (numberOfMonteCarloIterations (common a)))"
    and "calibratedSensorOutput (snd (main env argv)) =
           map_option mean (meanAndVariance (snd (main env argv)))"
  by (simp_all add: main_runs [OF assms(1,2)] runAfterStartup_fields
      stateBeforeReport_result [OF assms(3)])

lemma main_no_result:
  assumes "getCommandLineArguments env argv = (0, a)"
    and "allocateSamples env a (initialLocals env) = Some s1"
    and "\<not> isMonteCarloMode (common a)"
  shows "meanAndVariance (snd (main env argv)) = None"
  using assms(2,3)
  by (auto simp: main_runs [OF assms(1,2)] runAfterStartup_fields stateBeforeReport_def
      stopTiming_fields reduceSamples_def sampleLoop_frame startTiming_def allocateSamples_def
      initialLocals_def)

lemma main_samples:
  assumes "getCommandLineArguments env argv = (0, a)"
    and "allocateSamples env a (initialLocals env) = Some s1"
    and "isMonteCarloMode (common a)"
    and "numberOfMonteCarloIterations (common a) * sizeofDouble < 2 ^ 64"
  shows "monteCarloOutputSamples (snd (main env argv)) =
           Some (map (\<lambda>i. fst (calculateSensorOutput a (drawnInputs env i) []))
                   [0 ..< numberOfMonteCarloIterations (common a)])"
proof -
  let ?n = "numberOfMonteCarloIterations (common a)"
  have buf: "monteCarloOutputSamples (startTiming env a s1) = Some (replicate ?n None)"
    by (simp add: startTiming_fields allocateSamples_fields(7) [OF assms(2,3)] block_size [OF assms(4)])
  have len: "length (inputDistributions (startTiming env a s1)) = kInputDistributionIndexMax"
    by (simp add: startTiming_fields allocateSamples_fields [OF assms(2)] initialLocals_fields)
  have "monteCarloOutputSamples (sampleLoop env a ?n (startTiming env a s1)) =
          Some (map (\<lambda>i. fst (calculateSensorOutput a (drawnInputs env i) [])) [0 ..< ?n]
                @ drop ?n (replicate ?n None))"
    by (rule sampleLoop_samples [OF assms(3) buf len]) simp
  then show ?thesis
    by (simp add: main_runs [OF assms(1,2)] runAfterStartup_fields stateBeforeReport_samples)
qed

subsection \<open>The samples and their reduction\<close>

lemma calculateSensorOutput_some:
  assumes "outputSelect (common a) \<le> kOutputDistributionIndexCalibratedSensorOutputMax"
  shows "\<exists>v. fst (calculateSensorOutput a inp outs) = Some v"
  using assms
proof (cases rule: selection_cases)
  case 1
  then show ?thesis by (simp add: calculateSensorOutput_Linear500Pa)
next
  case 2
  then show ?thesis by (simp add: calculateSensorOutput_Linear125Pa)
next
  case 3
  then show ?thesis by (simp add: calculateSensorOutput_Sqrt500Pa)
next
  case 4
  then show ?thesis by (simp add: calculateSensorOutput_Sqrt125Pa)
next
  case 5
  then show ?thesis by (simp add: calculateSensorOutput_all)
qed

lemma those_map_Some: "those (map Some xs) = Some xs"
  by (induction xs) simp_all

lemma those_Some_length:
  assumes "those ys = Some xs"
  shows "length xs = length ys"
  using assms
  by (induction ys arbitrary: xs) (auto split: option.splits)

lemma readSamples_length:
  assumes "readSamples p n = Some xs"
  shows "length xs = n"
  using assms
  by (auto simp: readSamples_def dest: those_Some_length split: option.splits if_splits)

lemma readSamples_all_assigned:
  assumes "length xs = n"
  shows "readSamples (Some (map Some xs)) n = Some xs"
  using assms by (simp add: readSamples_def those_map_Some)

lemma mean_calculateMeanAndVarianceOfDoubleSamples:
  assumes "length xs = n"
  shows "mean (calculateMeanAndVarianceOfDoubleSamples xs n) = sum_list xs / real n"
  using assms by (simp add: calculateMeanAndVarianceOfDoubleSamples_def Let_def)

lemma sum_list_squares_nonneg: "0 \<le> sum_list (map (\<lambda>x. (x - m) ^ 2) (xs :: real list))"
  by (induction xs) simp_all

lemma variance_calculateMeanAndVarianceOfDoubleSamples:
  "0 \<le> variance (calculateMeanAndVarianceOfDoubleSamples xs n)"
  by (simp add: calculateMeanAndVarianceOfDoubleSamples_def Let_def sum_list_squares_nonneg)

lemma main_samples_assigned:
  assumes "getCommandLineArguments env argv = (0, a)"
    and "allocateSamples env a (initialLocals env) = Some s1"
    and "isMonteCarloMode (common a)"
    and "numberOfMonteCarloIterations (common a) * sizeofDouble < 2 ^ 64"
    and "outputSelect (common a) \<le> kOutputDistributionIndexCalibratedSensorOutputMax"
  shows "\<exists>xs. length xs = numberOfMonteCarloIterations (common a) \<and>
              monteCarloOutputSamples (snd (main env argv)) = Some (map Some xs)"
proof -
  let ?f = "\<lambda>i. fst (calculateSensorOutput a (drawnInputs env i) [])"
  let ?n = "numberOfMonteCarloIterations (common a)"
  have "?f i = Some (the (?f i))" for i
    using calculateSensorOutput_some [OF assms(5), of "drawnInputs env i" "[]"] by auto
  then have "map ?f [0 ..< ?n] = map Some (map (\<lambda>i. the (?f i)) [0 ..< ?n])"
    by simp
  then have "monteCarloOutputSamples (snd (main env argv)) =
               Some (map Some (map (\<lambda>i. the (?f i)) [0 ..< ?n]))"
    by (simp only: main_samples [OF assms(1-4)])
  moreover have "length (map (\<lambda>i. the (?f i)) [0 ..< ?n]) = ?n"
    by simp
  ultimately show ?thesis by blast
qed

subsection \<open>The calibrated output at the exit\<close>

lemma sampleLoop_last_output:
  assumes "length (inputDistributions s) = kInputDistributionIndexMax"
  shows "calibratedSensorOutput (sampleLoop env a (Suc n) s) =
           fst (calculateSensorOutput a (drawnInputs env n) [])"
proof -
  have len: "length (inputDistributions (sampleLoop env a n s)) = kInputDistributionIndexMax"
    by (simp add: sampleLoop_lengths assms)
  show ?thesis
    using fst_calculateSensorOutput_indep
      [of a "drawnInputs env n" "outputDistributions (sampleLoop env a n s)" "[]"]
    by (simp add: loopBody_def Let_def setInputDistributionsViaUxHwCall_drawn [OF len])
qed

lemma main_output_direct:
  assumes "getCommandLineArguments env argv = (0, a)"
    and "allocateSamples env a (initialLocals env) = Some s1"
    and "\<not> isMonteCarloMode (common a)"
    and "numberOfMonteCarloIterations (common a) = Suc n"
  shows "calibratedSensorOutput (snd (main env argv)) =
           fst (calculateSensorOutput a (drawnInputs env n) [])"
proof -
  have len: "length (inputDistributions (startTiming env a s1)) = kInputDistributionIndexMax"
    by (simp add: startTiming_fields allocateSamples_fields [OF assms(2)] initialLocals_fields)
  have "calibratedSensorOutput (sampleLoop env a (Suc n) (startTiming env a s1)) =
          fst (calculateSensorOutput a (drawnInputs env n) [])"
    by (rule sampleLoop_last_output [OF len])
  then show ?thesis
    using assms(3)
    by (simp add: main_runs [OF assms(1,2)] runAfterStartup_fields stateBeforeReport_def
        stopTiming_fields reduceSamples_def assms(4))
qed

lemma main_output_assigned:
  assumes "getCommandLineArguments env argv = (0, a)"
    and "allocateSamples env a (initialLocals env) = Some s1"
    and "0 < numberOfMonteCarloIterations (common a)"
    and "outputSelect (common a) \<le> kOutputDistributionIndexCalibratedSensorOutputMax"
    and "isMonteCarloMode (common a) \<longrightarrow>
           numberOfMonteCarloIterations (common a) * sizeofDouble < 2 ^ 64"
  shows "calibratedSensorOutput (snd (main env argv)) \<noteq> None"
proof (cases "isMonteCarloMode (common a)")
  case True
  with assms(5) have fits: "numberOfMonteCarloIterations (common a) * sizeofDouble < 2 ^ 64"
    by simp
  from main_samples_assigned [OF assms(1,2) True fits assms(4)]
  obtain xs where len: "length xs = numberOfMonteCarloIterations (common a)"
    and buf: "monteCarloOutputSamples (snd (main env argv)) = Some (map Some xs)"
    by blast
  show ?thesis
    by (simp add: main_result(2) [OF assms(1,2) True] main_result(1) [OF assms(1,2) True] buf
        readSamples_all_assigned [OF len])
next
  case False
  from assms(3) obtain n where n: "numberOfMonteCarloIterations (common a) = Suc n"
    by (cases "numberOfMonteCarloIterations (common a)") simp_all
  show ?thesis
    using calculateSensorOutput_some [OF assms(4), of "drawnInputs env n" "[]"]
    by (auto simp: main_output_direct [OF assms(1,2) False n])
qed

subsection \<open>The conversion to microseconds\<close>

lemma toUint64_in_range:
  assumes "0 \<le> x" and "x < 2 ^ 64"
  shows "toUint64 x = Some (nat \<lfloor>x\<rfloor>)"
  using assms by (simp add: toUint64_def)

subsection \<open>The example runs\<close>

lemma example_parse: "getCommandLineArguments (exampleEnvironment a c) argv = (0, a)"
  by (simp add: exampleEnvironment_def)

lemma example_allocate:
  "allocateSamples (exampleEnvironment a c) a (initialLocals (exampleEnvironment a c)) \<noteq> None"
  unfolding allocateSamples_succeeds_iff by (simp add: exampleEnvironment_def)

lemma example_csv_status:
  "writeOutputDoubleDistributionsToCSV (exampleEnvironment a c) p d names n = c"
  by (simp add: exampleEnvironment_def)

lemma example_clock:
  "clock (exampleEnvironment a c) k = 15625 * int k"
  "CLOCKS_PER_SEC (exampleEnvironment a c) = 1000000"
  "roundToDouble (exampleEnvironment a c) x = x"
  by (simp_all add: exampleEnvironment_def)

lemma example_flags:
  "outputSelect (common (exampleArguments sel mc timing bench json write)) = sel"
  "isMonteCarloMode (common (exampleArguments sel mc timing bench json write)) = mc"
  "numberOfMonteCarloIterations (common (exampleArguments sel mc timing bench json write)) = 2"
  "isTimingEnabled (common (exampleArguments sel mc timing bench json write)) = timing"
  "isBenchmarkingMode (common (exampleArguments sel mc timing bench json write)) = bench"
  "isOutputJSONMode (common (exampleArguments sel mc timing bench json write)) = json"
  "isWriteToFileEnabled (common (exampleArguments sel mc timing bench json write)) = write"
  by (simp_all add: exampleArguments_def)

lemma example_block_fits:
  "numberOfMonteCarloIterations (common (exampleArguments sel mc timing bench json write)) * sizeofDouble
     < 2 ^ 64"
  by (simp add: example_flags sizeofDouble_def)

section \<open>Claims about \<^verbatim>\<open>main\<close>\<close>

text \<open>C1, as the code has it: in a run that reaches the loop, the CSV writer is called
  exactly when the write-to-file flag is set and the benchmarking flag is not set,
  whatever the JSON flag is; and the exit code is not zero exactly when that call is made
  and returns a non-zero status.\<close>

theorem csv_write_runs_iff:
  assumes "getCommandLineArguments env argv = (0, arguments)"
    and "allocateSamples env arguments (initialLocals env) \<noteq> None"
  shows
    "(list_ex isCSVWrite (trace (snd (main env argv))) \<longleftrightarrow>
        isWriteToFileEnabled (common arguments) \<and> \<not> isBenchmarkingMode (common arguments)) \<and>
     (fst (main env argv) \<noteq> 0 \<longleftrightarrow>
        list_ex isCSVWrite (trace (snd (main env argv))) \<and>
        writeOutputDoubleDistributionsToCSV env (outputFilePath (common arguments))
          (outputDistributions (snd (main env argv))) outputVariableNames
          kOutputDistributionIndexCalibratedSensorOutputMax \<noteq> 0)"
proof -
  from assms(2) obtain s1 where s1: "allocateSamples env arguments (initialLocals env) = Some s1"
    by blast
  have csv: "list_ex isCSVWrite (trace (snd (main env argv))) =
               (isWriteToFileEnabled (common arguments) \<and> \<not> isBenchmarkingMode (common arguments))"
    by (rule main_csv_write [OF assms(1) s1])
  have code: "fst (main env argv) \<noteq> 0 \<longleftrightarrow>
      \<not> isBenchmarkingMode (common arguments) \<and> isWriteToFileEnabled (common arguments) \<and>
      writeOutputDoubleDistributionsToCSV env (outputFilePath (common arguments))
        (outputDistributions (snd (main env argv))) outputVariableNames
        kOutputDistributionIndexCalibratedSensorOutputMax \<noteq> 0"
    by (subst main_exit [OF assms(1) s1]) (simp add: kCommonConstantReturnTypeError_def)
  show ?thesis
    using csv code by blast
qed

theorem csv_write_runs_iff_witness:
  "getCommandLineArguments
     (exampleEnvironment (exampleArguments 4 False False False True True) 1) []
     = (0, exampleArguments 4 False False False True True) \<and>
   allocateSamples (exampleEnvironment (exampleArguments 4 False False False True True) 1)
     (exampleArguments 4 False False False True True)
     (initialLocals (exampleEnvironment (exampleArguments 4 False False False True True) 1)) \<noteq> None \<and>
   isOutputJSONMode (common (exampleArguments 4 False False False True True)) \<and>
   list_ex isCSVWrite
     (trace (snd (main (exampleEnvironment (exampleArguments 4 False False False True True) 1) []))) \<and>
   fst (main (exampleEnvironment (exampleArguments 4 False False False True True) 1) []) \<noteq> 0"
  using csv_write_runs_iff [OF example_parse example_allocate,
      of "exampleArguments 4 False False False True True" 1 "[]"]
    example_parse [of "exampleArguments 4 False False False True True" 1 "[]"]
    example_allocate [of "exampleArguments 4 False False False True True" 1]
  by (simp add: example_flags example_csv_status)

text \<open>With the JSON flag and the write-to-file flag both set, and the benchmarking flag
  not set, the CSV writer is called: the call does not depend on the JSON flag being
  unset.\<close>

theorem csv_write_with_json_counterexample:
  "\<not> (list_ex isCSVWrite
        (trace (snd (main (exampleEnvironment (exampleArguments 4 False False False True True) 0) [])))
      \<longleftrightarrow>
        isWriteToFileEnabled (common (exampleArguments 4 False False False True True)) \<and>
        \<not> isBenchmarkingMode (common (exampleArguments 4 False False False True True)) \<and>
        \<not> isOutputJSONMode (common (exampleArguments 4 False False False True True)))"
proof -
  obtain s1 where s1:
    "allocateSamples (exampleEnvironment (exampleArguments 4 False False False True True) 0)
       (exampleArguments 4 False False False True True)
       (initialLocals (exampleEnvironment (exampleArguments 4 False False False True True) 0)) = Some s1"
    using example_allocate [of "exampleArguments 4 False False False True True" 0] by blast
  show ?thesis
    by (simp add: main_csv_write [OF example_parse s1] example_flags)
qed

text \<open>C2: a run in Monte Carlo mode, not benchmarking, with the write-to-file flag set, in
  which the CSV writer returns the status 1. The run exits with the code 1; the sample
  block is allocated, and the trace holds neither the call that saves the samples nor the
  call that frees the block.\<close>

theorem csv_failure_skips_save_and_free:
  "isMonteCarloMode (common (exampleArguments 4 True False False False True)) \<and>
   fst (main (exampleEnvironment (exampleArguments 4 True False False False True) 1) []) = 1 \<and>
   monteCarloOutputSamples
     (snd (main (exampleEnvironment (exampleArguments 4 True False False False True) 1) [])) \<noteq> None \<and>
   \<not> list_ex isSave
       (trace (snd (main (exampleEnvironment (exampleArguments 4 True False False False True) 1) []))) \<and>
   \<not> list_ex isFree
       (trace (snd (main (exampleEnvironment (exampleArguments 4 True False False False True) 1) [])))"
proof -
  let ?a = "exampleArguments 4 True False False False True"
  let ?env = "exampleEnvironment ?a 1"
  obtain s1 where s1: "allocateSamples ?env ?a (initialLocals ?env) = Some s1"
    using example_allocate [of ?a 1] by blast
  have mc: "isMonteCarloMode (common ?a)"
    by (simp add: example_flags)
  have code: "fst (main ?env []) = 1"
    by (subst main_exit [OF example_parse s1])
      (simp add: example_flags example_csv_status kCommonConstantReturnTypeError_def)
  have samples: "monteCarloOutputSamples (snd (main ?env [])) \<noteq> None"
    by (simp add: main_samples [OF example_parse s1 mc example_block_fits])
  have save: "\<not> list_ex isSave (trace (snd (main ?env [])))"
    by (simp add: main_save_and_free(1) [OF example_parse s1] code)
  have free: "\<not> list_ex isFree (trace (snd (main ?env [])))"
    by (simp add: main_save_and_free(2) [OF example_parse s1] code)
  show ?thesis
    using mc code samples save free by blast
qed

text \<open>C10: a run in Monte Carlo mode with the timing flag and the benchmarking flag both
  unset. The run exits with the code 0; \<^verbatim>\<open>cpuTimeUsedSeconds\<close> was never assigned, and the
  call that saves the samples receives the conversion of that unassigned variable.\<close>

theorem unassigned_cpu_time_is_saved:
  "isMonteCarloMode (common (exampleArguments 4 True False False False False)) \<and>
   fst (main (exampleEnvironment (exampleArguments 4 True False False False False) 0) []) = 0 \<and>
   cpuTimeUsedSeconds
     (snd (main (exampleEnvironment (exampleArguments 4 True False False False False) 0) [])) = None \<and>
   SaveMonteCarloDoubleDataToDataDotOutFile
     (monteCarloOutputSamples
        (snd (main (exampleEnvironment (exampleArguments 4 True False False False False) 0) [])))
     None 2
   \<in> set (trace (snd (main (exampleEnvironment (exampleArguments 4 True False False False False) 0) [])))"
proof -
  let ?a = "exampleArguments 4 True False False False False"
  let ?env = "exampleEnvironment ?a 0"
  obtain s1 where s1: "allocateSamples ?env ?a (initialLocals ?env) = Some s1"
    using example_allocate [of ?a 0] by blast
  have mc: "isMonteCarloMode (common ?a)"
    by (simp add: example_flags)
  have code: "fst (main ?env []) = 0"
    by (subst main_exit [OF example_parse s1]) (simp add: example_flags)
  have cpu: "cpuTimeUsedSeconds (snd (main ?env [])) = None"
    by (simp add: main_cpuTime [OF example_parse s1] example_flags)
  then have us: "elapsedMicroseconds ?env (snd (main ?env [])) = None"
    by (simp add: elapsedMicroseconds_def)
  have "SaveMonteCarloDoubleDataToDataDotOutFile (monteCarloOutputSamples (snd (main ?env [])))
          (elapsedMicroseconds ?env (snd (main ?env [])))
          (numberOfMonteCarloIterations (common ?a))
        \<in> set (trace (snd (main ?env [])))"
    by (rule main_saved_call [OF example_parse s1 mc code])
  then have saved: "SaveMonteCarloDoubleDataToDataDotOutFile
      (monteCarloOutputSamples (snd (main ?env []))) None 2 \<in> set (trace (snd (main ?env [])))"
    by (simp add: us example_flags)
  show ?thesis
    using mc code cpu saved by blast
qed

text \<open>C9: in a run that reaches the loop with the benchmarking flag set, whatever the
  selection and the other flags, the calls that report results are exactly one: the
  \<^verbatim>\<open>printf\<close> of the benchmark line, with the calibrated value and the elapsed microseconds.
  The measured seconds are the double quotient of the ticks by \<^verbatim>\<open>CLOCKS_PER_SEC\<close>; the
  microseconds are the conversion to \<^verbatim>\<open>uint64_t\<close> of the double product of the measured
  seconds and one million, which for a product in the range of \<^verbatim>\<open>uint64_t\<close> is its
  truncation. With at least one iteration, a valid selection and, in Monte Carlo mode, a
  block size that fits \<^verbatim>\<open>size_t\<close>, the calibrated value of the line is assigned. The exit
  code is 0.\<close>

theorem benchmark_output_is_one_line:
  assumes "getCommandLineArguments env argv = (0, arguments)"
    and "allocateSamples env arguments (initialLocals env) \<noteq> None"
    and "isBenchmarkingMode (common arguments)"
  shows
    "filter isReport (trace (snd (main env argv))) =
       [PrintfBenchmarkLine (calibratedSensorOutput (snd (main env argv)))
          (elapsedMicroseconds env (snd (main env argv)))] \<and>
     cpuTimeUsedSeconds (snd (main env argv)) =
       Some (measuredSeconds env) \<and>
     elapsedMicroseconds env (snd (main env argv)) =
       toUint64 (roundToDouble env (measuredSeconds env * 1000000)) \<and>
     (0 \<le> roundToDouble env (measuredSeconds env * 1000000) \<and>
      roundToDouble env (measuredSeconds env * 1000000) < 2 ^ 64
        \<longrightarrow> elapsedMicroseconds env (snd (main env argv)) =
              Some (nat \<lfloor>roundToDouble env
                             (measuredSeconds env * 1000000)\<rfloor>)) \<and>
     (0 < numberOfMonteCarloIterations (common arguments) \<and>
      outputSelect (common arguments) \<le> kOutputDistributionIndexCalibratedSensorOutputMax \<and>
      (isMonteCarloMode (common arguments) \<longrightarrow>
         numberOfMonteCarloIterations (common arguments) * sizeofDouble < 2 ^ 64)
        \<longrightarrow> calibratedSensorOutput (snd (main env argv)) \<noteq> None) \<and>
     fst (main env argv) = 0"
proof -
  let ?final = "snd (main env argv)"
  let ?product = "roundToDouble env (measuredSeconds env * 1000000)"
  from assms(2) obtain s1 where s1: "allocateSamples env arguments (initialLocals env) = Some s1"
    by blast
  have line: "filter isReport (trace ?final) =
       [PrintfBenchmarkLine (calibratedSensorOutput ?final) (elapsedMicroseconds env ?final)]"
    by (rule main_benchmark [OF assms(1) s1 assms(3)])
  have cpu: "cpuTimeUsedSeconds ?final =
       Some (measuredSeconds env)"
    using assms(3) by (simp add: main_cpuTime [OF assms(1) s1] measuredSeconds_def)
  have us: "elapsedMicroseconds env ?final = toUint64 ?product"
    by (simp add: elapsedMicroseconds_def cpu)
  have trunc: "elapsedMicroseconds env ?final = Some (nat \<lfloor>?product\<rfloor>)"
    if "0 \<le> ?product \<and> ?product < 2 ^ 64"
    unfolding us using that toUint64_in_range [of ?product] by blast
  have printed: "calibratedSensorOutput ?final \<noteq> None"
    if "0 < numberOfMonteCarloIterations (common arguments) \<and>
        outputSelect (common arguments) \<le> kOutputDistributionIndexCalibratedSensorOutputMax \<and>
        (isMonteCarloMode (common arguments) \<longrightarrow>
           numberOfMonteCarloIterations (common arguments) * sizeofDouble < 2 ^ 64)"
    using that main_output_assigned [OF assms(1) s1] by blast
  have code: "fst (main env argv) = 0"
    using assms(3) by (subst main_exit [OF assms(1) s1]) simp
  show ?thesis
    using line cpu us trunc printed code by blast
qed

theorem benchmark_output_is_one_line_witness:
  "getCommandLineArguments
     (exampleEnvironment (exampleArguments 4 False False True False False) 0) []
     = (0, exampleArguments 4 False False True False False) \<and>
   allocateSamples (exampleEnvironment (exampleArguments 4 False False True False False) 0)
     (exampleArguments 4 False False True False False)
     (initialLocals (exampleEnvironment (exampleArguments 4 False False True False False) 0)) \<noteq> None \<and>
   isBenchmarkingMode (common (exampleArguments 4 False False True False False)) \<and>
   filter isReport
     (trace (snd (main (exampleEnvironment (exampleArguments 4 False False True False False) 0) [])))
     = [PrintfBenchmarkLine
          (calibratedSensorOutput
             (snd (main (exampleEnvironment (exampleArguments 4 False False True False False) 0) [])))
          (Some 15625)] \<and>
   cpuTimeUsedSeconds
     (snd (main (exampleEnvironment (exampleArguments 4 False False True False False) 0) []))
     = Some (1 / 64) \<and>
   calibratedSensorOutput
     (snd (main (exampleEnvironment (exampleArguments 4 False False True False False) 0) []))
     \<noteq> None \<and>
   fst (main (exampleEnvironment (exampleArguments 4 False False True False False) 0) []) = 0"
proof -
  let ?a = "exampleArguments 4 False False True False False"
  let ?env = "exampleEnvironment ?a 0"
  let ?final = "snd (main ?env [])"
  have bench: "isBenchmarkingMode (common ?a)"
    by (simp add: example_flags)
  note t = benchmark_output_is_one_line [OF example_parse example_allocate bench, of 0 "[]"]
  have seconds: "measuredSeconds ?env = 1 / 64"
    by (simp add: measuredSeconds_def example_clock)
  from t have "cpuTimeUsedSeconds ?final = Some (measuredSeconds ?env)"
    by blast
  then have cpu: "cpuTimeUsedSeconds ?final = Some (1 / 64)"
    by (simp only: seconds)
  have product: "roundToDouble ?env (measuredSeconds ?env * 1000000) = 15625"
    by (simp add: seconds example_clock)
  have range: "0 \<le> roundToDouble ?env (measuredSeconds ?env * 1000000) \<and>
      roundToDouble ?env (measuredSeconds ?env * 1000000) < 2 ^ 64"
    unfolding product by simp
  from t range have "elapsedMicroseconds ?env ?final =
      Some (nat \<lfloor>roundToDouble ?env (measuredSeconds ?env * 1000000)\<rfloor>)"
    by blast
  then have us: "elapsedMicroseconds ?env ?final = Some 15625"
    unfolding product by simp
  have run: "0 < numberOfMonteCarloIterations (common ?a) \<and>
      outputSelect (common ?a) \<le> kOutputDistributionIndexCalibratedSensorOutputMax \<and>
      (isMonteCarloMode (common ?a) \<longrightarrow>
         numberOfMonteCarloIterations (common ?a) * sizeofDouble < 2 ^ 64)"
    by (simp add: example_flags index_constants)
  from t run have printed: "calibratedSensorOutput ?final \<noteq> None"
    by blast
  have line: "filter isReport (trace ?final) =
      [PrintfBenchmarkLine (calibratedSensorOutput ?final) (elapsedMicroseconds ?env ?final)]"
    using t by blast
  have code: "fst (main ?env []) = 0"
    using t by blast
  show ?thesis
    using line code bench cpu printed example_parse [of ?a 0 "[]"] example_allocate [of ?a 0]
    unfolding us by blast
qed

text \<open>C8: in a run that reaches the loop, the reduction to mean and variance is called
  exactly when Monte Carlo mode is active, and without it no mean and variance exist.
  In Monte Carlo mode the calibrated output at the exit is the mean of the reduction.
  Whenever the reduction has a result, its variance is not negative and its mean is the
  sum of the collected samples divided by their number, the iteration count. With a
  valid selection and a block size that fits \<^verbatim>\<open>size_t\<close>, the reduction has a result.\<close>

theorem reduction_iff_Monte_Carlo:
  assumes "getCommandLineArguments env argv = (0, arguments)"
    and "allocateSamples env arguments (initialLocals env) \<noteq> None"
  shows
    "(list_ex isReduction (trace (snd (main env argv))) \<longleftrightarrow> isMonteCarloMode (common arguments)) \<and>
     (\<not> isMonteCarloMode (common arguments) \<longrightarrow> meanAndVariance (snd (main env argv)) = None) \<and>
     (isMonteCarloMode (common arguments) \<longrightarrow>
        calibratedSensorOutput (snd (main env argv)) =
          map_option mean (meanAndVariance (snd (main env argv)))) \<and>
     (\<forall>mv. meanAndVariance (snd (main env argv)) = Some mv \<longrightarrow>
        0 \<le> variance mv \<and>
        (\<exists>xs. readSamples (monteCarloOutputSamples (snd (main env argv)))
                (numberOfMonteCarloIterations (common arguments)) = Some xs \<and>
              length xs = numberOfMonteCarloIterations (common arguments) \<and>
              mean mv = sum_list xs / real (numberOfMonteCarloIterations (common arguments)))) \<and>
     (isMonteCarloMode (common arguments) \<and>
      outputSelect (common arguments) \<le> kOutputDistributionIndexCalibratedSensorOutputMax \<and>
      numberOfMonteCarloIterations (common arguments) * sizeofDouble < 2 ^ 64 \<longrightarrow>
        meanAndVariance (snd (main env argv)) \<noteq> None)"
proof -
  let ?n = "numberOfMonteCarloIterations (common arguments)"
  let ?final = "snd (main env argv)"
  from assms(2) obtain s1 where s1: "allocateSamples env arguments (initialLocals env) = Some s1"
    by blast
  have called: "list_ex isReduction (trace ?final) \<longleftrightarrow> isMonteCarloMode (common arguments)"
    by (simp add: main_reduction [OF assms(1) s1])
  have none: "meanAndVariance ?final = None" if "\<not> isMonteCarloMode (common arguments)"
    by (rule main_no_result [OF assms(1) s1 that])
  have out: "calibratedSensorOutput ?final = map_option mean (meanAndVariance ?final)"
    if "isMonteCarloMode (common arguments)"
    by (rule main_result(2) [OF assms(1) s1 that])
  have props: "0 \<le> variance mv \<and>
        (\<exists>xs. readSamples (monteCarloOutputSamples ?final) ?n = Some xs \<and> length xs = ?n \<and>
              mean mv = sum_list xs / real ?n)"
    if mv: "meanAndVariance ?final = Some mv" for mv
  proof -
    have mc: "isMonteCarloMode (common arguments)"
      using none mv by auto
    from mv main_result(1) [OF assms(1) s1 mc]
    obtain xs where xs: "readSamples (monteCarloOutputSamples ?final) ?n = Some xs"
      and mv_eq: "mv = calculateMeanAndVarianceOfDoubleSamples xs ?n"
      by auto
    have len: "length xs = ?n"
      by (rule readSamples_length [OF xs])
    show ?thesis
      using xs len
      by (auto simp: mv_eq variance_calculateMeanAndVarianceOfDoubleSamples
          mean_calculateMeanAndVarianceOfDoubleSamples)
  qed
  have some: "meanAndVariance ?final \<noteq> None"
    if "isMonteCarloMode (common arguments) \<and>
        outputSelect (common arguments) \<le> kOutputDistributionIndexCalibratedSensorOutputMax \<and>
        ?n * sizeofDouble < 2 ^ 64"
  proof -
    from that have mc: "isMonteCarloMode (common arguments)"
      and sel: "outputSelect (common arguments) \<le> kOutputDistributionIndexCalibratedSensorOutputMax"
      and fits: "?n * sizeofDouble < 2 ^ 64"
      by simp_all
    from main_samples_assigned [OF assms(1) s1 mc fits sel]
    obtain xs where len: "length xs = ?n"
      and buf: "monteCarloOutputSamples ?final = Some (map Some xs)"
      by blast
    show ?thesis
      by (simp add: main_result(1) [OF assms(1) s1 mc] buf readSamples_all_assigned [OF len])
  qed
  show ?thesis
    using called none out props some by blast
qed


theorem reduction_iff_Monte_Carlo_witness:
  "getCommandLineArguments
     (exampleEnvironment (exampleArguments 4 True False False False False) 0) []
     = (0, exampleArguments 4 True False False False False) \<and>
   allocateSamples (exampleEnvironment (exampleArguments 4 True False False False False) 0)
     (exampleArguments 4 True False False False False)
     (initialLocals (exampleEnvironment (exampleArguments 4 True False False False False) 0)) \<noteq> None \<and>
   isMonteCarloMode (common (exampleArguments 4 True False False False False)) \<and>
   outputSelect (common (exampleArguments 4 True False False False False))
     \<le> kOutputDistributionIndexCalibratedSensorOutputMax \<and>
   numberOfMonteCarloIterations (common (exampleArguments 4 True False False False False)) * sizeofDouble
     < 2 ^ 64 \<and>
   list_ex isReduction
     (trace (snd (main (exampleEnvironment (exampleArguments 4 True False False False False) 0) []))) \<and>
   meanAndVariance
     (snd (main (exampleEnvironment (exampleArguments 4 True False False False False) 0) [])) \<noteq> None \<and>
   calibratedSensorOutput
     (snd (main (exampleEnvironment (exampleArguments 4 True False False False False) 0) []))
     = map_option mean
         (meanAndVariance
            (snd (main (exampleEnvironment (exampleArguments 4 True False False False False) 0) [])))"
proof -
  let ?a = "exampleArguments 4 True False False False False"
  have mc: "isMonteCarloMode (common ?a)"
    by (simp add: example_flags)
  have sel: "outputSelect (common ?a) \<le> kOutputDistributionIndexCalibratedSensorOutputMax"
    by (simp add: example_flags index_constants)
  note t = reduction_iff_Monte_Carlo [OF example_parse example_allocate, of ?a 0 "[]"]
  show ?thesis
    using t mc sel example_block_fits [of 4 True False False False False]
      example_parse [of ?a 0 "[]"] example_allocate [of ?a 0]
    by blast
qed

text \<open>C6: when the selection is "all", the value that \<^verbatim>\<open>calculateSensorOutput\<close> returns is
  the Sqrt125Pa value, the one computed last, which in a table of four entries is also
  the Sqrt125Pa entry after the pass; and in a Monte Carlo run that reaches the loop,
  with a block size that fits \<^verbatim>\<open>size_t\<close>, the sample stored in iteration \<open>i\<close> is the
  Sqrt125Pa value of the inputs drawn in iteration \<open>i\<close>.\<close>

theorem all_selection_returns_Sqrt125Pa:
  assumes "outputSelect (common arguments) = kOutputDistributionIndexCalibratedSensorOutputMax"
  shows
    "fst (calculateSensorOutput arguments [Aout, Vdd] outs) = Some (specSqrt125Pa Aout Vdd) \<and>
     (length outs = kOutputDistributionIndexCalibratedSensorOutputMax \<longrightarrow>
        snd (calculateSensorOutput arguments [Aout, Vdd] outs)
          ! kOutputDistributionIndexCalibratedSensorOutputSDP8x6Sqrt125Pa
        = fst (calculateSensorOutput arguments [Aout, Vdd] outs)) \<and>
     (getCommandLineArguments env argv = (0, arguments) \<and>
      allocateSamples env arguments (initialLocals env) \<noteq> None \<and>
      isMonteCarloMode (common arguments) \<and>
      numberOfMonteCarloIterations (common arguments) * sizeofDouble < 2 ^ 64 \<longrightarrow>
        monteCarloOutputSamples (snd (main env argv)) =
          Some (map (\<lambda>i. Some (specSqrt125Pa
                                 (drawnInputs env i ! kInputDistributionIndexAout)
                                 (drawnInputs env i ! kInputDistributionIndexVdd)))
                  [0 ..< numberOfMonteCarloIterations (common arguments)]))"
proof (intro conjI impI)
  show "fst (calculateSensorOutput arguments [Aout, Vdd] outs) = Some (specSqrt125Pa Aout Vdd)"
    by (simp add: calculateSensorOutput_all [OF assms])
next
  assume "length outs = kOutputDistributionIndexCalibratedSensorOutputMax"
  then have "length outs = 4"
    by (simp add: index_constants)
  then show "snd (calculateSensorOutput arguments [Aout, Vdd] outs)
          ! kOutputDistributionIndexCalibratedSensorOutputSDP8x6Sqrt125Pa
        = fst (calculateSensorOutput arguments [Aout, Vdd] outs)"
    by (simp add: calculateSensorOutput_all [OF assms] index_constants)
next
  assume run: "getCommandLineArguments env argv = (0, arguments) \<and>
      allocateSamples env arguments (initialLocals env) \<noteq> None \<and>
      isMonteCarloMode (common arguments) \<and>
      numberOfMonteCarloIterations (common arguments) * sizeofDouble < 2 ^ 64"
  then obtain s1 where parse: "getCommandLineArguments env argv = (0, arguments)"
    and s1: "allocateSamples env arguments (initialLocals env) = Some s1"
    and mc: "isMonteCarloMode (common arguments)"
    and fits: "numberOfMonteCarloIterations (common arguments) * sizeofDouble < 2 ^ 64"
    by blast
  show "monteCarloOutputSamples (snd (main env argv)) =
          Some (map (\<lambda>i. Some (specSqrt125Pa
                                 (drawnInputs env i ! kInputDistributionIndexAout)
                                 (drawnInputs env i ! kInputDistributionIndexVdd)))
                  [0 ..< numberOfMonteCarloIterations (common arguments)])"
    by (simp add: main_samples [OF parse s1 mc fits] calculateSensorOutput_all [OF assms]
        index_constants)
qed

theorem all_selection_returns_Sqrt125Pa_witness:
  "outputSelect (common (exampleArguments 4 True False False False False))
     = kOutputDistributionIndexCalibratedSensorOutputMax \<and>
   length (replicate 4 (None :: real option)) = kOutputDistributionIndexCalibratedSensorOutputMax \<and>
   getCommandLineArguments
     (exampleEnvironment (exampleArguments 4 True False False False False) 0) []
     = (0, exampleArguments 4 True False False False False) \<and>
   allocateSamples (exampleEnvironment (exampleArguments 4 True False False False False) 0)
     (exampleArguments 4 True False False False False)
     (initialLocals (exampleEnvironment (exampleArguments 4 True False False False False) 0)) \<noteq> None \<and>
   isMonteCarloMode (common (exampleArguments 4 True False False False False)) \<and>
   numberOfMonteCarloIterations (common (exampleArguments 4 True False False False False)) * sizeofDouble
     < 2 ^ 64 \<and>
   fst (calculateSensorOutput (exampleArguments 4 True False False False False) [1.5, 3.7]
          (replicate 4 None))
     = Some (specSqrt125Pa 1.5 3.7) \<and>
   snd (calculateSensorOutput (exampleArguments 4 True False False False False) [1.5, 3.7]
          (replicate 4 None))
       ! kOutputDistributionIndexCalibratedSensorOutputSDP8x6Sqrt125Pa
     = Some (specSqrt125Pa 1.5 3.7) \<and>
   monteCarloOutputSamples
     (snd (main (exampleEnvironment (exampleArguments 4 True False False False False) 0) []))
     = Some [Some (specSqrt125Pa 1.5 3.7), Some (specSqrt125Pa 1.5 3.7)]"
proof -
  let ?a = "exampleArguments 4 True False False False False"
  let ?env = "exampleEnvironment ?a 0"
  have sel: "outputSelect (common ?a) = kOutputDistributionIndexCalibratedSensorOutputMax"
    by (simp add: example_flags index_constants)
  have len: "length (replicate 4 (None :: real option)) = kOutputDistributionIndexCalibratedSensorOutputMax"
    by (simp add: index_constants)
  have mc: "isMonteCarloMode (common ?a)"
    by (simp add: example_flags)
  note fits = example_block_fits [of 4 True False False False False]
  note parse = example_parse [of ?a 0 "[]"]
  note alloc = example_allocate [of ?a 0]
  note t = all_selection_returns_Sqrt125Pa [OF sel, of "1.5" "3.7" "replicate 4 None" ?env "[]"]
  have draws: "drawnInputs ?env i = [1.5, 3.7]" for i
    by (simp add: drawnInputs_def exampleEnvironment_def
        kDefaultInputDistributionAoutUniformDistLow_def kDefaultInputDistributionAoutUniformDistHigh_def
        kDefaultInputDistributionVddUniformDistLow_def kDefaultInputDistributionVddUniformDistHigh_def)
  have two: "[0 ..< numberOfMonteCarloIterations (common ?a)] = [0, 1]"
    by (simp add: example_flags upt_conv_Cons)
  from t parse alloc mc fits
  have "monteCarloOutputSamples (snd (main ?env [])) =
          Some (map (\<lambda>i. Some (specSqrt125Pa
                                 (drawnInputs ?env i ! kInputDistributionIndexAout)
                                 (drawnInputs ?env i ! kInputDistributionIndexVdd)))
                  [0 ..< numberOfMonteCarloIterations (common ?a)])"
    by blast
  then have samples: "monteCarloOutputSamples (snd (main ?env [])) =
      Some [Some (specSqrt125Pa 1.5 3.7), Some (specSqrt125Pa 1.5 3.7)]"
    unfolding two draws by (simp add: index_constants)
  from t len
  have "fst (calculateSensorOutput ?a [1.5, 3.7] (replicate 4 None)) = Some (specSqrt125Pa 1.5 3.7)"
    and "snd (calculateSensorOutput ?a [1.5, 3.7] (replicate 4 None))
           ! kOutputDistributionIndexCalibratedSensorOutputSDP8x6Sqrt125Pa
         = Some (specSqrt125Pa 1.5 3.7)"
    by simp_all
  then show ?thesis
    using sel len parse alloc mc fits samples by blast
qed

end
